theory Spec2Isabelle
  imports Complex_Main
begin

text \<open>
  The repository holds four variants of one webhook forwarder.  \<open>src/index.js\<close> is the
  baseline; \<open>src/unnamed/part_000\<close> concatenates three later variants: the second maps a
  custom field to the accounting category, the third adds a campaign table, the local area
  stored on the contact and memberships, and the fourth has the campaign table and the
  stored local area without memberships.  Functions that differ between the variants carry
  a suffix here (\<open>_base\<close>, \<open>_field\<close>, \<open>_member\<close>, \<open>_campaign\<close>); functions whose text
  is shared carry none.  An \<open>await\<close>ed call is a function from the trace so far to an
  outcome (\<open>Inl\<close> for a thrown error) and the extended trace.
\<close>

section \<open>JavaScript values\<close>

text \<open>
  The webhook body and the answers of CiviCRM are JSON, read by untyped JavaScript.
  The fields the handlers look at are modelled by the primitive values they can hold;
  \<open>JUndefined\<close> is a property that is not there.  Conditions of the source test
  truthiness (\<open>!x\<close>, \<open>x && y\<close>, \<open>x || y\<close>), so an empty text and the number zero
  behave like an absent value.
\<close>

datatype jv = JUndefined | JNull | JBool bool | JNum int | JStr string

fun truthy :: "jv \<Rightarrow> bool" where
  "truthy JUndefined = False"
| "truthy JNull = False"
| "truthy (JBool b) = b"
| "truthy (JNum n) = (n \<noteq> 0)"
| "truthy (JStr s) = (s \<noteq> [])"

definition js_or :: "jv \<Rightarrow> jv \<Rightarrow> jv" where
  "js_or a b = (if truthy a then a else b)"

text \<open>Decimal text of a number, as a template literal or a property key prints it.\<close>

fun digits :: "nat \<Rightarrow> string" where
  "digits n =
     (if n < 10 then [char_of (48 + n)]
      else digits (n div 10) @ [char_of (48 + n mod 10)])"

declare digits.simps [simp del]

fun js_string :: "jv \<Rightarrow> string" where
  "js_string JUndefined = ''undefined''"
| "js_string JNull = ''null''"
| "js_string (JBool b) = (if b then ''true'' else ''false'')"
| "js_string (JNum n) = (if n < 0 then CHR ''-'' # digits (nat (- n)) else digits (nat n))"
| "js_string (JStr s) = s"

text \<open>
  A table of the source is an object literal, and \<open>table[key]\<close> is a property read:
  it finds the literal's own entries first and then the members every object inherits
  from \<open>Object.prototype\<close>.  An inherited member is a function (or, for \<open>__proto__\<close>,
  the prototype object), which is truthy.
\<close>

definition object_prototype :: "string list" where
  "object_prototype =
     [''constructor'', ''toString'', ''toLocaleString'', ''valueOf'', ''hasOwnProperty'',
      ''isPrototypeOf'', ''propertyIsEnumerable'', ''__proto__'', ''__defineGetter__'',
      ''__defineSetter__'', ''__lookupGetter__'', ''__lookupSetter__'']"

datatype 'a property = Own 'a | Inherited string | Absent

definition js_get :: "(string \<times> 'a) list \<Rightarrow> string \<Rightarrow> 'a property" where
  "js_get obj k =
     (case map_of obj k of
        Some v \<Rightarrow> Own v
      | None \<Rightarrow> if k \<in> set object_prototype then Inherited k else Absent)"

section \<open>Dates\<close>

text \<open>
  A valid \<open>Date\<close> object holds a time value.  It is kept here as the calendar fields of
  that time value in UTC (month counted from 0, as ECMAScript does) and the milliseconds
  elapsed within the UTC day; an invalid one is \<open>None\<close>.  \<open>toISOString\<close> prints these
  fields.  \<open>getDate\<close>, \<open>getMonth\<close>, \<open>getFullYear\<close>, \<open>setDate\<close>, \<open>setMonth\<close> and
  \<open>setFullYear\<close> work on the fields of the local time instead, which depend on the time
  zone of the process.
\<close>

record instant =
  year :: int
  month :: int
  day :: int
  millis :: int

type_synonym jsdate = "instant option"

definition leap_year :: "int \<Rightarrow> bool" where
  "leap_year y = (y mod 4 = 0 \<and> (y mod 100 \<noteq> 0 \<or> y mod 400 = 0))"

definition days_in_month :: "int \<Rightarrow> int \<Rightarrow> int" where
  "days_in_month y m =
     (if m = 1 then (if leap_year y then 29 else 28)
      else if m = 3 \<or> m = 5 \<or> m = 8 \<or> m = 10 then 30 else 31)"

definition next_month :: "int \<Rightarrow> int \<Rightarrow> int \<times> int" where
  "next_month y m = (if 11 \<le> m then (y + 1, 0) else (y, m + 1))"

definition prev_month :: "int \<Rightarrow> int \<Rightarrow> int \<times> int" where
  "prev_month y m = (if m \<le> 0 then (y - 1, 11) else (y, m - 1))"

text \<open>
  ECMAScript's \<open>MakeDay\<close>: a month outside 0..11 moves the year, and a day of the
  month outside the month's length runs over into the following months (or back into
  the preceding ones).
\<close>

function roll :: "int \<Rightarrow> int \<Rightarrow> int \<Rightarrow> int \<times> int \<times> int" where
  "roll y m d =
     (if days_in_month y m < d then
        roll (fst (next_month y m)) (snd (next_month y m)) (d - days_in_month y m)
      else if d < 1 then
        roll (fst (prev_month y m)) (snd (prev_month y m))
          (d + days_in_month (fst (prev_month y m)) (snd (prev_month y m)))
      else (y, m, d))"
  by pat_completeness auto
termination
  by (relation "measure (\<lambda>(y, m, d). nat (if d < 1 then 32 - d else d))")
     (auto simp: days_in_month_def)

declare roll.simps [simp del]

definition make_day :: "int \<Rightarrow> int \<Rightarrow> int \<Rightarrow> int \<times> int \<times> int" where
  "make_day y m d = roll (y + m div 12) (m mod 12) d"

definition with_day :: "instant \<Rightarrow> int \<times> int \<times> int \<Rightarrow> instant" where
  "with_day i ymd = i\<lparr>year := fst ymd, month := fst (snd ymd), day := snd (snd ymd)\<rparr>"

text \<open>
  The time zone of the process, as ECMAScript's \<open>LocalTZA\<close>: the offset in milliseconds
  that turns a UTC time into local time, and the offset in force at a given local time.
  Moving a time by an offset carries whole days into the calendar fields.
\<close>

record time_zone =
  local_offset :: "instant \<Rightarrow> int"
  utc_offset :: "instant \<Rightarrow> int"

definition shift :: "instant \<Rightarrow> int \<Rightarrow> instant" where
  "shift i off =
     (with_day i (roll (year i) (month i) (day i + (millis i + off) div 86400000)))
        \<lparr>millis := (millis i + off) mod 86400000\<rparr>"

definition LocalTime :: "time_zone \<Rightarrow> instant \<Rightarrow> instant" where
  "LocalTime Z t = shift t (local_offset Z t)"

definition UTC :: "time_zone \<Rightarrow> instant \<Rightarrow> instant" where
  "UTC Z l = shift l (- utc_offset Z l)"

definition getFullYear :: "time_zone \<Rightarrow> instant \<Rightarrow> int" where
  "getFullYear Z t = year (LocalTime Z t)"

definition getMonth :: "time_zone \<Rightarrow> instant \<Rightarrow> int" where
  "getMonth Z t = month (LocalTime Z t)"

definition getDate :: "time_zone \<Rightarrow> instant \<Rightarrow> int" where
  "getDate Z t = day (LocalTime Z t)"

definition setFullYear :: "time_zone \<Rightarrow> instant \<Rightarrow> int \<Rightarrow> instant" where
  "setFullYear Z t y =
     UTC Z (with_day (LocalTime Z t)
        (make_day y (month (LocalTime Z t)) (day (LocalTime Z t))))"

definition setMonth :: "time_zone \<Rightarrow> instant \<Rightarrow> int \<Rightarrow> instant" where
  "setMonth Z t m =
     UTC Z (with_day (LocalTime Z t)
        (make_day (year (LocalTime Z t)) m (day (LocalTime Z t))))"

definition setDate :: "time_zone \<Rightarrow> instant \<Rightarrow> int \<Rightarrow> instant" where
  "setDate Z t d =
     UTC Z (with_day (LocalTime Z t)
        (make_day (year (LocalTime Z t)) (month (LocalTime Z t)) d))"

text \<open>\<open>a > b\<close> on two dates compares their time values; an invalid date is never later.\<close>

definition later :: "instant \<Rightarrow> instant \<Rightarrow> bool" where
  "later a b =
     (year b < year a \<or>
      (year a = year b \<and>
        (month b < month a \<or>
         (month a = month b \<and>
           (day b < day a \<or> (day a = day b \<and> millis b < millis a))))))"

definition date_gt :: "jsdate \<Rightarrow> instant \<Rightarrow> bool" where
  "date_gt a b = (case a of None \<Rightarrow> False | Some i \<Rightarrow> later i b)"

text \<open>
  \<open>toISOString().split('T')[0]\<close>: the text YYYY-MM-DD of the UTC fields, kept as the
  triple of numbers it spells, with the month counted from 1.
\<close>

type_synonym iso_date = "int \<times> int \<times> int"

definition iso_day :: "instant \<Rightarrow> iso_date" where
  "iso_day i = (year i, month i + 1, day i)"

text \<open>The fields of a time value: a day that the month has, a time within the day.\<close>

definition calendar :: "instant \<Rightarrow> bool" where
  "calendar i =
     (0 \<le> month i \<and> month i \<le> 11 \<and> 1 \<le> day i \<and> day i \<le> days_in_month (year i) (month i) \<and>
      0 \<le> millis i \<and> millis i < 86400000)"

text \<open>
  Two zones: UTC, and America/New_York as it is in 2025 (five hours behind UTC, four
  hours from 9 March, 07:00 UTC, to 2 November, 06:00 UTC).
\<close>

definition utc_zone :: time_zone where
  "utc_zone = \<lparr>local_offset = (\<lambda>t. 0), utc_offset = (\<lambda>l. 0)\<rparr>"

definition new_york :: time_zone where
  "new_york =
     \<lparr>local_offset = (\<lambda>t.
        if \<not> later \<lparr>year = 2025, month = 2, day = 9, millis = 25200000\<rparr> t \<and>
           later \<lparr>year = 2025, month = 10, day = 2, millis = 21600000\<rparr> t
        then - 14400000 else - 18000000),
      utc_offset = (\<lambda>l.
        if \<not> later \<lparr>year = 2025, month = 2, day = 9, millis = 10800000\<rparr> l \<and>
           later \<lparr>year = 2025, month = 10, day = 2, millis = 7200000\<rparr> l
        then - 14400000 else - 18000000)\<rparr>"

text \<open>
  Calendar arithmetic on the printed dates, to state what the window is: the day after a
  date, and a date plus a number of years or months, where a day of the month that the
  target month does not have runs over into the month after it (31 January plus one month
  is 3 March, or 2 March in a leap year).
\<close>

definition day_after :: "iso_date \<Rightarrow> iso_date" where
  "day_after d =
     (case d of (y, m, dd) \<Rightarrow>
        if dd < days_in_month y (m - 1) then (y, m, dd + 1)
        else if m < 12 then (y, m + 1, 1)
        else (y + 1, 1, 1))"

definition run_over :: "iso_date \<Rightarrow> iso_date" where
  "run_over d =
     (case d of (y, m, dd) \<Rightarrow>
        if dd \<le> days_in_month y (m - 1) then (y, m, dd)
        else if m < 12 then (y, m + 1, dd - days_in_month y (m - 1))
        else (y + 1, 1, dd - days_in_month y (m - 1)))"

datatype duration = Years int | Months int

definition plus_duration :: "iso_date \<Rightarrow> duration \<Rightarrow> iso_date" where
  "plus_duration d dur =
     (case d of (y, m, dd) \<Rightarrow>
        (case dur of
           Years k \<Rightarrow> run_over (y + k, m, dd)
         | Months k \<Rightarrow> run_over (y + (m - 1 + k) div 12, (m - 1 + k) mod 12 + 1, dd)))"

section \<open>Data model\<close>

text \<open>
  The \<open>data\<close> object of a \<open>transaction.succeeded\<close> event.  The donor's name, email
  and phone stand on the object itself or under its \<open>member\<close> sub-object.
\<close>

record custom_field =
  field_id :: jv
  title :: jv
  field_value :: jv

record donor =
  first_name :: jv
  last_name :: jv
  email :: jv
  phone :: jv

record transaction =
  txn_id :: jv
  amount :: rat
  transacted_at :: jv
  campaign_id :: jv
  campaign_title :: jv
  own :: donor
  member :: "donor option"
  custom_fields :: "custom_field list option"
  is_recurring :: jv
  plan_id :: jv

text \<open>
  The accounting category written into a contribution: a number, or, when a table read
  reached \<open>Object.prototype\<close>, the inherited member of that name.
\<close>

datatype fin_type = TypeId int | ProtoMember string

record contribution =
  contact_id :: jv
  financial_type_id :: fin_type
  total_amount :: rat
  receive_date :: jv
  source :: string
  trxn_id :: jv
  invoice_id :: jv
  contribution_status_id :: int
  payment_instrument_id :: int

record membership =
  m_contact_id :: jv
  membership_type_id :: int
  m_source :: string
  contribution_id :: jv
  m_id :: jv
  join_date :: "iso_date option"
  start_date :: iso_date
  end_date :: iso_date
  status_id :: int

text \<open>The parameter objects handed to \<open>civiCRMApi\<close>, one constructor for each shape.\<close>

datatype params =
    GetContact jv "string option"
  | NewContact jv jv jv "jv option"
  | SetLocalArea jv jv
  | NewContribution contribution
  | GetMembership jv int
  | SaveMembership membership

record call =
  entity :: string
  action :: string
  params :: params

text \<open>
  What the process does towards the outside, in order: calls of the CiviCRM endpoint,
  reads of the payment platform's plan API, and lines written with \<open>console.error\<close>.
\<close>

datatype event = CrmCall call | PlanCall jv | ErrorLog string

datatype error = HttpError string | TypeError string

fun message :: "error \<Rightarrow> string" where
  "message (HttpError s) = s"
| "message (TypeError s) = s"

text \<open>
  An answer of CiviCRM: an object with an optional \<open>id\<close>, \<open>count\<close> and \<open>values\<close>;
  \<open>values\<close> is an array of rows (the sequential form) or an object keyed by id, whose
  entries are listed in the order \<open>Object.keys\<close> enumerates them.  \<open>row_end_date\<close> is
  the \<open>Date\<close> that \<open>new Date(row.end_date)\<close> constructs.
\<close>

record row =
  row_id :: jv
  row_contact_id :: jv
  custom_820 :: jv
  row_end_date :: jsdate

datatype vals = Rows "row list" | Keyed "(string \<times> row) list"

record response =
  resp_id :: jv
  resp_count :: "int option"
  resp_values :: "vals option"

record plan =
  frequency :: jv

text \<open>
  The environment of the process: the two remote services (their answer may depend on
  everything that happened before), the configuration read from the process environment,
  the HMAC primitive, the time zone, and the clock: the readings of the successive
  \<open>new Date()\<close> of one membership upsert, the text of \<open>new Date().toISOString()\<close> and
  the number \<open>Date.now()\<close>.
\<close>

record env =
  crm :: "event list \<Rightarrow> call \<Rightarrow> error + response"
  plans :: "event list \<Rightarrow> jv \<Rightarrow> error + plan"
  GIVEBUTTER_WEBHOOK_SECRET :: "string option"
  GIVEBUTTER_API_KEY :: "string option"
  hmac_sha256_hex :: "string \<Rightarrow> string \<Rightarrow> string"
  zone :: time_zone
  clock :: "nat \<Rightarrow> instant"
  clock_iso :: string
  clock_ms :: nat

type_synonym 'a io = "event list \<Rightarrow> (error + 'a) \<times> event list"

subsection \<open>Reading an answer\<close>

definition count_positive :: "response \<Rightarrow> bool" where
  "count_positive r = (case resp_count r of None \<Rightarrow> False | Some n \<Rightarrow> 0 < n)"

text \<open>\<open>values[0]\<close> and \<open>Object.keys(values)[0]\<close> and \<open>values.length > 0\<close>.\<close>

fun elem0 :: "vals \<Rightarrow> row option" where
  "elem0 (Rows rs) = (case rs of [] \<Rightarrow> None | r # _ \<Rightarrow> Some r)"
| "elem0 (Keyed kvs) = map_of kvs ''0''"

fun key0 :: "vals \<Rightarrow> jv" where
  "key0 (Rows rs) = (case rs of [] \<Rightarrow> JUndefined | _ # _ \<Rightarrow> JStr ''0'')"
| "key0 (Keyed kvs) = (case kvs of [] \<Rightarrow> JUndefined | (k, _) # _ \<Rightarrow> JStr k)"

fun nonempty_array :: "vals \<Rightarrow> bool" where
  "nonempty_array (Rows rs) = (rs \<noteq> [])"
| "nonempty_array (Keyed kvs) = False"

text \<open>
  The expression
  \<open>r.id || (r.values && r.values[0] && r.values[0].id) || (r.values && Object.keys(r.values)[0])\<close>
  that the later variants use after every create call.
\<close>

definition extract_id :: "response \<Rightarrow> jv" where
  "extract_id r =
     js_or (js_or (resp_id r)
        (case resp_values r of
           None \<Rightarrow> JUndefined
         | Some v \<Rightarrow> (case elem0 v of None \<Rightarrow> JUndefined | Some x \<Rightarrow> row_id x)))
       (case resp_values r of None \<Rightarrow> JUndefined | Some v \<Rightarrow> key0 v)"

section \<open>The CiviCRM client\<close>

text \<open>
  One call per invocation; a failure is logged and thrown again.  (The baseline sends the
  parameters with GET and the later variants with POST, which this model does not tell
  apart.)
\<close>

definition civiCRMApi :: "env \<Rightarrow> string \<Rightarrow> string \<Rightarrow> params \<Rightarrow> response io" where
  "civiCRMApi E ent act p tr =
     (let c = \<lparr>entity = ent, action = act, params = p\<rparr> in
      case crm E tr c of
        Inl err \<Rightarrow> (Inl err, tr @ [CrmCall c, ErrorLog ''CiviCRM API Error''])
      | Inr r \<Rightarrow> (Inr r, tr @ [CrmCall c]))"

section \<open>Contact resolution\<close>

definition contact_params :: "donor \<Rightarrow> params" where
  "contact_params d =
     NewContact (first_name d) (last_name d) (email d)
       (if truthy (phone d) then Some (phone d) else None)"

text \<open>Baseline (index.js).\<close>

definition findOrCreateContact_base :: "env \<Rightarrow> donor \<Rightarrow> jv io" where
  "findOrCreateContact_base E d tr =
     (case civiCRMApi E ''Contact'' ''get'' (GetContact (email d) None) tr of
        (Inl err, tr1) \<Rightarrow> (Inl err, tr1)
      | (Inr searchResult, tr1) \<Rightarrow>
          if count_positive searchResult then
            (case resp_values searchResult of
               None \<Rightarrow> (Inl (TypeError ''Cannot read properties of undefined''), tr1)
             | Some v \<Rightarrow>
                 (case elem0 v of
                    None \<Rightarrow> (Inl (TypeError ''Cannot read properties of undefined''), tr1)
                  | Some r \<Rightarrow> (Inr (row_id r), tr1)))
          else
            (case civiCRMApi E ''Contact'' ''create'' (contact_params d) tr1 of
               (Inl err, tr2) \<Rightarrow> (Inl err, tr2)
             | (Inr createResult, tr2) \<Rightarrow> (Inr (resp_id createResult), tr2)))"

text \<open>
  The lookup of the later variants counts as a match only when \<open>values\<close> is a non-empty
  array.
\<close>

definition found :: "response \<Rightarrow> row option" where
  "found searchResult =
     (if count_positive searchResult then
        (case resp_values searchResult of
           None \<Rightarrow> None
         | Some v \<Rightarrow> if nonempty_array v then elem0 v else None)
      else None)"

text \<open>Second variant (first part of the concatenated sources).\<close>

definition findOrCreateContact_field :: "env \<Rightarrow> donor \<Rightarrow> jv io" where
  "findOrCreateContact_field E d tr =
     (case civiCRMApi E ''Contact'' ''get'' (GetContact (email d) None) tr of
        (Inl err, tr1) \<Rightarrow> (Inl err, tr1)
      | (Inr searchResult, tr1) \<Rightarrow>
          (case found searchResult of
             Some r \<Rightarrow> (Inr (js_or (row_id r) (row_contact_id r)), tr1)
           | None \<Rightarrow>
               (case civiCRMApi E ''Contact'' ''create'' (contact_params d) tr1 of
                  (Inl err, tr2) \<Rightarrow> (Inl err, tr2)
                | (Inr createResult, tr2) \<Rightarrow> (Inr (extract_id createResult), tr2))))"

text \<open>
  Third and fourth variant (textually the same function): the lookup asks for the stored
  local area too, and the result carries it.
\<close>

record contact_info =
  info_id :: jv
  localArea :: jv

definition findOrCreateContact :: "env \<Rightarrow> donor \<Rightarrow> contact_info io" where
  "findOrCreateContact E d tr =
     (case civiCRMApi E ''Contact'' ''get''
             (GetContact (email d) (Some ''id,display_name,custom_820'')) tr of
        (Inl err, tr1) \<Rightarrow> (Inl err, tr1)
      | (Inr searchResult, tr1) \<Rightarrow>
          (case found searchResult of
             Some contact \<Rightarrow>
               (Inr \<lparr>info_id = js_or (row_id contact) (row_contact_id contact),
                     localArea = js_or (custom_820 contact) JNull\<rparr>, tr1)
           | None \<Rightarrow>
               (case civiCRMApi E ''Contact'' ''create'' (contact_params d) tr1 of
                  (Inl err, tr2) \<Rightarrow> (Inl err, tr2)
                | (Inr createResult, tr2) \<Rightarrow>
                    (Inr \<lparr>info_id = extract_id createResult, localArea = JNull\<rparr>, tr2))))"

section \<open>Accounting category\<close>

definition localAreaMapping :: "(string \<times> int) list" where
  "localAreaMapping =
     [(''MKP USA'', 49), (''Central Plains'', 18), (''Chicago'', 19), (''Colorado'', 20),
      (''Florida'', 21), (''Greater Carolinas'', 23), (''Hawaii'', 25), (''Heartland'', 139),
      (''Intermountain'', 28), (''Metro NY Tri-State'', 36), (''Mid Atlantic'', 24),
      (''Mid America'', 27), (''New England'', 34), (''Northern California'', 40),
      (''Northwest'', 41), (''Philadelphia'', 42), (''Southern California'', 31),
      (''South Central'', 51), (''South East'', 22), (''Southwest'', 17), (''St. Louis'', 45),
      (''Upstate New York'', 46), (''Wisconsin'', 48)]"

text \<open>\<open>localAreaMapping[label] || 49\<close>.\<close>

definition mapped_type :: "jv \<Rightarrow> fin_type" where
  "mapped_type label =
     (case js_get localAreaMapping (js_string label) of
        Own n \<Rightarrow> if n \<noteq> 0 then TypeId n else TypeId 49
      | Inherited k \<Rightarrow> ProtoMember k
      | Absent \<Rightarrow> TypeId 49)"

definition is_local_area :: "custom_field \<Rightarrow> bool" where
  "is_local_area field = (title field = JStr ''Local Area'' \<or> field_id field = JNum 64260)"

text \<open>
  The value of the first custom field that \<open>find\<close> selects, when the list is there and
  not empty and the value is truthy; \<open>null\<close> otherwise.
\<close>

definition localAreaField :: "transaction \<Rightarrow> custom_field option" where
  "localAreaField t =
     (case custom_fields t of
        None \<Rightarrow> None
      | Some fs \<Rightarrow> if 0 < length fs then find is_local_area fs else None)"

definition transaction_local_area :: "transaction \<Rightarrow> jv" where
  "transaction_local_area t =
     (case localAreaField t of
        None \<Rightarrow> JNull
      | Some field \<Rightarrow> if truthy (field_value field) then field_value field else JNull)"

section \<open>Contribution: baseline (index.js)\<close>

definition contributionData_base :: "env \<Rightarrow> jv \<Rightarrow> transaction \<Rightarrow> contribution" where
  "contributionData_base E contactId t =
     \<lparr>contact_id = contactId,
      financial_type_id = TypeId 1,
      total_amount = amount t / 100,
      receive_date = js_or (transacted_at t) (JStr (clock_iso E)),
      source = ''Givebutter: '' @ js_string (js_or (campaign_id t) (JStr ''Unknown Campaign'')),
      trxn_id = txn_id t,
      invoice_id = txn_id t,
      contribution_status_id = 1,
      payment_instrument_id = 1\<rparr>"

definition createContribution_base :: "env \<Rightarrow> jv \<Rightarrow> transaction \<Rightarrow> response io" where
  "createContribution_base E contactId t tr =
     civiCRMApi E ''Contribution'' ''create''
       (NewContribution (contributionData_base E contactId t)) tr"

section \<open>Contribution: custom field\<close>

text \<open>The payload of the three later variants, for the category already resolved.\<close>

definition contributionData :: "env \<Rightarrow> jv \<Rightarrow> fin_type \<Rightarrow> transaction \<Rightarrow> contribution" where
  "contributionData E contactId financialTypeId t =
     \<lparr>contact_id = contactId,
      financial_type_id = financialTypeId,
      total_amount = amount t,
      receive_date = js_or (transacted_at t) (JStr (clock_iso E)),
      source = ''Givebutter: '' @
        js_string (js_or (js_or (campaign_title t) (campaign_id t)) (JStr ''Unknown Campaign'')),
      trxn_id = txn_id t,
      invoice_id = txn_id t,
      contribution_status_id = 1,
      payment_instrument_id = 1\<rparr>"

definition financialTypeId_field :: "transaction \<Rightarrow> fin_type" where
  "financialTypeId_field t =
     (let label = transaction_local_area t in
      if truthy label then mapped_type label else TypeId 49)"

definition createContribution_field :: "env \<Rightarrow> jv \<Rightarrow> transaction \<Rightarrow> response io" where
  "createContribution_field E contactId t tr =
     civiCRMApi E ''Contribution'' ''create''
       (NewContribution (contributionData E contactId (financialTypeId_field t) t)) tr"

section \<open>Contribution: campaign table and stored local area\<close>

text \<open>
  The campaign table holds, for a campaign id, the text \<open>'use_custom_field'\<close> or the
  number of a fixed category (the source lists one campaign and shows the second form in
  a comment).
\<close>

datatype policy = use_custom_field | Fixed int

definition campaignFinancialTypeMapping :: "(string \<times> policy) list" where
  "campaignFinancialTypeMapping = [(''195519'', use_custom_field)]"

definition campaignMapping :: "transaction \<Rightarrow> policy property" where
  "campaignMapping t = js_get campaignFinancialTypeMapping (js_string (campaign_id t))"

text \<open>The write-back never throws: a failure of the call is logged and dropped.\<close>

definition updateContactLocalArea :: "env \<Rightarrow> jv \<Rightarrow> jv \<Rightarrow> unit io" where
  "updateContactLocalArea E contactId area tr =
     (case civiCRMApi E ''Contact'' ''create'' (SetLocalArea contactId area) tr of
        (Inl err, tr1) \<Rightarrow> (Inr (), tr1 @ [ErrorLog ''Failed to update contact Local Area''])
      | (Inr r, tr1) \<Rightarrow> (Inr (), tr1))"

definition shouldUpdateContact :: "contact_info \<Rightarrow> transaction \<Rightarrow> bool" where
  "shouldUpdateContact contactInfo t =
     (truthy (transaction_local_area t) \<and>
      (\<not> truthy (localArea contactInfo) \<or> localArea contactInfo \<noteq> transaction_local_area t))"

definition localAreaValue :: "contact_info \<Rightarrow> transaction \<Rightarrow> jv" where
  "localAreaValue contactInfo t =
     (if \<not> truthy (transaction_local_area t) \<and> truthy (localArea contactInfo)
      then localArea contactInfo else transaction_local_area t)"

text \<open>
  The branch on the campaign table, with the write-back it may issue, up to the resolved
  category.
\<close>

definition financialTypeId_campaign :: "env \<Rightarrow> contact_info \<Rightarrow> transaction \<Rightarrow> fin_type io" where
  "financialTypeId_campaign E contactInfo t tr =
     (case campaignMapping t of
        Own use_custom_field \<Rightarrow>
          (case (if shouldUpdateContact contactInfo t \<and> truthy (localAreaValue contactInfo t)
                 then updateContactLocalArea E (info_id contactInfo)
                        (localAreaValue contactInfo t) tr
                 else (Inr (), tr)) of
             (Inl err, tr1) \<Rightarrow> (Inl err, tr1)
           | (Inr u, tr1) \<Rightarrow>
               (Inr (if truthy (localAreaValue contactInfo t)
                     then mapped_type (localAreaValue contactInfo t) else TypeId 49), tr1))
      | Own (Fixed n) \<Rightarrow> (Inr (if n \<noteq> 0 then TypeId n else TypeId 49), tr)
      | Inherited k \<Rightarrow> (Inr (ProtoMember k), tr)
      | Absent \<Rightarrow> (Inr (TypeId 49), tr))"

text \<open>Fourth variant: the campaign table without memberships.\<close>

definition createContribution_campaign :: "env \<Rightarrow> contact_info \<Rightarrow> transaction \<Rightarrow> response io" where
  "createContribution_campaign E contactInfo t tr =
     (case financialTypeId_campaign E contactInfo t tr of
        (Inl err, tr1) \<Rightarrow> (Inl err, tr1)
      | (Inr financialTypeId, tr1) \<Rightarrow>
          civiCRMApi E ''Contribution'' ''create''
            (NewContribution (contributionData E (info_id contactInfo) financialTypeId t)) tr1)"

section \<open>Membership\<close>

text \<open>Type and duration, decided before the guarded part of \<open>createOrRenewMembership\<close>.\<close>

definition membershipType :: "transaction \<Rightarrow> jv \<Rightarrow> int \<times> duration" where
  "membershipType t freq =
     (if \<not> truthy (is_recurring t) then (11, Years 1)
      else if freq = JStr ''monthly'' then (10, Months 1)
      else if freq = JStr ''yearly'' \<or> freq = JStr ''annual'' then (9, Years 1)
      else if freq = JStr ''quarterly'' then (10, Months 3)
      else (11, Years 1))"

text \<open>
  \<open>endDate.setFullYear(base.getFullYear() + years)\<close>, or else
  \<open>endDate.setMonth(base.getMonth() + months)\<close>, as the duration object has it.
\<close>

definition advance :: "time_zone \<Rightarrow> instant \<Rightarrow> instant \<Rightarrow> duration \<Rightarrow> instant" where
  "advance Z endDate base dur =
     (case dur of
        Years k \<Rightarrow> if k \<noteq> 0 then setFullYear Z endDate (getFullYear Z base + k) else endDate
      | Months k \<Rightarrow> if k \<noteq> 0 then setMonth Z endDate (getMonth Z base + k) else endDate)"

definition membership_source :: "transaction \<Rightarrow> string" where
  "membership_source t = ''Givebutter: '' @ js_string (js_or (campaign_title t) (campaign_id t))"

text \<open>
  The start and end of the window when a membership was found.  \<open>startDate\<close> and
  \<open>endDate\<close> come in as computed from the clock; if the existing end date lies after
  \<open>today\<close>, they are replaced: the start by a copy of the existing end date moved on by
  one day, the end by a copy of that start moved on by the duration.
\<close>

definition renewal_window ::
    "time_zone \<Rightarrow> instant \<Rightarrow> instant \<Rightarrow> instant \<Rightarrow> jsdate \<Rightarrow> duration \<Rightarrow> instant \<times> instant" where
  "renewal_window Z today startDate endDate existingEndDate dur =
     (if date_gt existingEndDate today then
        (case existingEndDate of
           None \<Rightarrow> (startDate, endDate)
         | Some e \<Rightarrow>
             (let s = setDate Z e (getDate Z e + 1)
              in (s, advance Z s s dur)))
      else (startDate, endDate))"

text \<open>
  The payload of the create call, from the answer of the lookup.  The function reads the
  clock three times, for \<open>today\<close>, \<open>startDate\<close> and \<open>endDate\<close>.  Reading the first
  row of an answer that has a positive count and no such row throws.
\<close>

definition membershipData ::
    "env \<Rightarrow> jv \<Rightarrow> jv \<Rightarrow> transaction \<Rightarrow> jv \<Rightarrow> response \<Rightarrow> error + membership" where
  "membershipData E contactId contributionId t freq existingMembership =
     (let membershipTypeId = fst (membershipType t freq);
          membershipDuration = snd (membershipType t freq);
          today = clock E 0;
          startDate = clock E 1;
          endDate = advance (zone E) (clock E 2) startDate membershipDuration;
          fresh =
            \<lparr>m_contact_id = contactId,
             membership_type_id = membershipTypeId,
             m_source = membership_source t,
             contribution_id = contributionId,
             m_id = JUndefined,
             join_date = None,
             start_date = iso_day startDate,
             end_date = iso_day endDate,
             status_id = 1\<rparr>
      in
      if count_positive existingMembership then
        (case resp_values existingMembership of
           None \<Rightarrow> Inl (TypeError ''Cannot read properties of undefined'')
         | Some v \<Rightarrow>
             (case elem0 v of
                None \<Rightarrow> Inl (TypeError ''Cannot read properties of undefined'')
              | Some existing \<Rightarrow>
                  (let w = renewal_window (zone E) today startDate endDate
                             (row_end_date existing) membershipDuration
                   in Inr (fresh
                        \<lparr>m_id := row_id existing,
                         start_date := iso_day (fst w),
                         end_date := iso_day (snd w)\<rparr>))))
      else Inr (fresh\<lparr>join_date := Some (iso_day today)\<rparr>))"

text \<open>The guarded part: any failure in it leaves through \<open>Inl\<close>.\<close>

definition renew_guarded :: "env \<Rightarrow> jv \<Rightarrow> jv \<Rightarrow> transaction \<Rightarrow> jv \<Rightarrow> jv io" where
  "renew_guarded E contactId contributionId t freq tr =
     (case civiCRMApi E ''Membership'' ''get''
             (GetMembership contactId (fst (membershipType t freq))) tr of
        (Inl err, tr1) \<Rightarrow> (Inl err, tr1)
      | (Inr existingMembership, tr1) \<Rightarrow>
          (case membershipData E contactId contributionId t freq existingMembership of
             Inl err \<Rightarrow> (Inl err, tr1)
           | Inr m \<Rightarrow>
               (case civiCRMApi E ''Membership'' ''create'' (SaveMembership m) tr1 of
                  (Inl err, tr2) \<Rightarrow> (Inl err, tr2)
                | (Inr result, tr2) \<Rightarrow> (Inr (extract_id result), tr2))))"

definition createOrRenewMembership :: "env \<Rightarrow> jv \<Rightarrow> jv \<Rightarrow> transaction \<Rightarrow> jv \<Rightarrow> jv io" where
  "createOrRenewMembership E contactId contributionId t freq tr =
     (case renew_guarded E contactId contributionId t freq tr of
        (Inl err, tr1) \<Rightarrow> (Inr JNull, tr1 @ [ErrorLog ''Failed to create/renew membership''])
      | (Inr membershipId, tr1) \<Rightarrow> (Inr membershipId, tr1))"

text \<open>The plan read returns \<open>null\<close> without a plan id or an API key, and on any failure.\<close>

definition has_api_key :: "env \<Rightarrow> bool" where
  "has_api_key E = (case GIVEBUTTER_API_KEY E of None \<Rightarrow> False | Some k \<Rightarrow> k \<noteq> [])"

definition getGivebutterPlan :: "env \<Rightarrow> jv \<Rightarrow> plan option io" where
  "getGivebutterPlan E planId tr =
     (if \<not> truthy planId \<or> \<not> has_api_key E then (Inr None, tr)
      else
        (case plans E tr planId of
           Inl err \<Rightarrow> (Inr None, tr @ [PlanCall planId, ErrorLog ''Failed to fetch plan''])
         | Inr p \<Rightarrow> (Inr (Some p), tr @ [PlanCall planId])))"

definition plan_frequency :: "plan option \<Rightarrow> jv" where
  "plan_frequency planDetails =
     (case planDetails of
        None \<Rightarrow> JNull
      | Some p \<Rightarrow> if truthy (frequency p) then frequency p else JNull)"

text \<open>The frequency that \<open>createContribution\<close> hands to the membership upsert.\<close>

definition resolve_frequency :: "env \<Rightarrow> transaction \<Rightarrow> jv io" where
  "resolve_frequency E t tr =
     (if truthy (plan_id t) then
        (case getGivebutterPlan E (plan_id t) tr of
           (Inl err, tr1) \<Rightarrow> (Inl err, tr1)
         | (Inr planDetails, tr1) \<Rightarrow> (Inr (plan_frequency planDetails), tr1))
      else (Inr JNull, tr))"

text \<open>Third variant: the campaign table, and a membership for campaign 195519.\<close>

definition createContribution_member :: "env \<Rightarrow> contact_info \<Rightarrow> transaction \<Rightarrow> response io" where
  "createContribution_member E contactInfo t tr =
     (case createContribution_campaign E contactInfo t tr of
        (Inl err, tr1) \<Rightarrow> (Inl err, tr1)
      | (Inr result, tr1) \<Rightarrow>
          if campaign_id t = JStr ''195519'' then
            (case resolve_frequency E t tr1 of
               (Inl err, tr2) \<Rightarrow> (Inl err, tr2)
             | (Inr freq, tr2) \<Rightarrow>
                 (case createOrRenewMembership E (info_id contactInfo) (extract_id result)
                         t freq tr2 of
                    (Inl err, tr3) \<Rightarrow> (Inl err, tr3)
                  | (Inr membershipId, tr3) \<Rightarrow> (Inr result, tr3)))
          else (Inr result, tr1))"

section \<open>The endpoints\<close>

text \<open>
  A request to the webhook route: the signature header (if sent), the text
  \<open>JSON.stringify(req.body)\<close>, and the two members of the body the handler reads.
  \<open>payload = None\<close> is a body without a \<open>data\<close> object.
\<close>

record request =
  signature :: "string option"
  body_text :: string
  event_name :: jv
  payload :: "transaction option"

datatype reply_body =
    Succeeded jv jv
  | Failed string
  | StatusOnly
  | TestSucceeded jv "jv option"

record reply =
  status :: nat
  body :: reply_body

datatype verdict = Next | Answered nat | Thrown error

text \<open>
  \<open>!signature\<close> holds for a header that was not sent and for one sent empty.
  \<open>crypto.createHmac\<close> throws when the secret is not configured.
\<close>

definition verifyGivebutterSignature :: "env \<Rightarrow> request \<Rightarrow> verdict" where
  "verifyGivebutterSignature E req =
     (case signature req of
        None \<Rightarrow> Next
      | Some s \<Rightarrow>
          if s = [] then Next
          else
            (case GIVEBUTTER_WEBHOOK_SECRET E of
               None \<Rightarrow> Thrown (TypeError ''The key argument must be of type string'')
             | Some k \<Rightarrow>
                 if s = hmac_sha256_hex E k (body_text req) then Next else Answered 401))"

definition donor_of :: "transaction \<Rightarrow> donor" where
  "donor_of t =
     \<lparr>first_name = js_or (first_name (own t))
         (case member t of None \<Rightarrow> JUndefined | Some m \<Rightarrow> first_name m),
      last_name = js_or (last_name (own t))
         (case member t of None \<Rightarrow> JUndefined | Some m \<Rightarrow> last_name m),
      email = js_or (email (own t))
         (case member t of None \<Rightarrow> JUndefined | Some m \<Rightarrow> email m),
      phone = js_or (phone (own t))
         (case member t of None \<Rightarrow> JUndefined | Some m \<Rightarrow> phone m)\<rparr>"

text \<open>
  The processing chain of each variant: resolve the contact, create the contribution,
  and hand back the two identifiers of the success answer.
\<close>

definition chain_base :: "env \<Rightarrow> donor \<Rightarrow> transaction \<Rightarrow> (jv \<times> jv) io" where
  "chain_base E d t tr =
     (case findOrCreateContact_base E d tr of
        (Inl err, tr1) \<Rightarrow> (Inl err, tr1)
      | (Inr contactId, tr1) \<Rightarrow>
          (case createContribution_base E contactId t tr1 of
             (Inl err, tr2) \<Rightarrow> (Inl err, tr2)
           | (Inr contribution, tr2) \<Rightarrow> (Inr (contactId, resp_id contribution), tr2)))"

definition chain_field :: "env \<Rightarrow> donor \<Rightarrow> transaction \<Rightarrow> (jv \<times> jv) io" where
  "chain_field E d t tr =
     (case findOrCreateContact_field E d tr of
        (Inl err, tr1) \<Rightarrow> (Inl err, tr1)
      | (Inr contactId, tr1) \<Rightarrow>
          (case createContribution_field E contactId t tr1 of
             (Inl err, tr2) \<Rightarrow> (Inl err, tr2)
           | (Inr contribution, tr2) \<Rightarrow> (Inr (contactId, resp_id contribution), tr2)))"

definition chain_member :: "env \<Rightarrow> donor \<Rightarrow> transaction \<Rightarrow> (jv \<times> jv) io" where
  "chain_member E d t tr =
     (case findOrCreateContact E d tr of
        (Inl err, tr1) \<Rightarrow> (Inl err, tr1)
      | (Inr contactInfo, tr1) \<Rightarrow>
          (case createContribution_member E contactInfo t tr1 of
             (Inl err, tr2) \<Rightarrow> (Inl err, tr2)
           | (Inr contribution, tr2) \<Rightarrow>
               (Inr (info_id contactInfo, resp_id contribution), tr2)))"

definition chain_campaign :: "env \<Rightarrow> donor \<Rightarrow> transaction \<Rightarrow> (jv \<times> jv) io" where
  "chain_campaign E d t tr =
     (case findOrCreateContact E d tr of
        (Inl err, tr1) \<Rightarrow> (Inl err, tr1)
      | (Inr contactInfo, tr1) \<Rightarrow>
          (case createContribution_campaign E contactInfo t tr1 of
             (Inl err, tr2) \<Rightarrow> (Inl err, tr2)
           | (Inr contribution, tr2) \<Rightarrow>
               (Inr (info_id contactInfo, resp_id contribution), tr2)))"

text \<open>
  The route handler, the same text in all four variants but for the chain it runs.  With
  no \<open>data\<close> object the first property read throws inside the guarded block.
\<close>

definition handle_webhook ::
    "(donor \<Rightarrow> transaction \<Rightarrow> (jv \<times> jv) io) \<Rightarrow> request \<Rightarrow> event list \<Rightarrow> reply \<times> event list" where
  "handle_webhook chain req tr =
     (if event_name req = JStr ''transaction.succeeded'' then
        (case (case payload req of
                 None \<Rightarrow> (Inl (TypeError ''Cannot read properties of undefined''), tr)
               | Some t \<Rightarrow> chain (donor_of t) t tr) of
           (Inl err, tr1) \<Rightarrow>
             (\<lparr>status = 200, body = Failed (message err)\<rparr>,
              tr1 @ [ErrorLog ''ERROR processing webhook'', ErrorLog ''Stack''])
         | (Inr ids, tr1) \<Rightarrow> (\<lparr>status = 200, body = Succeeded (fst ids) (snd ids)\<rparr>, tr1))
      else (\<lparr>status = 200, body = StatusOnly\<rparr>, tr))"

text \<open>
  The route: the verifier first; an exception of the verifier is answered by the
  framework's default error handler.
\<close>

definition webhook ::
    "(donor \<Rightarrow> transaction \<Rightarrow> (jv \<times> jv) io) \<Rightarrow> env \<Rightarrow> request \<Rightarrow> event list \<Rightarrow> reply \<times> event list" where
  "webhook chain E req tr =
     (case verifyGivebutterSignature E req of
        Next \<Rightarrow> handle_webhook chain req tr
      | Answered n \<Rightarrow>
          (\<lparr>status = n, body = StatusOnly\<rparr>, tr @ [ErrorLog ''Invalid webhook signature''])
      | Thrown err \<Rightarrow> (\<lparr>status = 500, body = StatusOnly\<rparr>, tr))"

definition webhook_base :: "env \<Rightarrow> request \<Rightarrow> event list \<Rightarrow> reply \<times> event list" where
  "webhook_base E = webhook (chain_base E) E"

definition webhook_field :: "env \<Rightarrow> request \<Rightarrow> event list \<Rightarrow> reply \<times> event list" where
  "webhook_field E = webhook (chain_field E) E"

definition webhook_member :: "env \<Rightarrow> request \<Rightarrow> event list \<Rightarrow> reply \<times> event list" where
  "webhook_member E = webhook (chain_member E) E"

definition webhook_campaign :: "env \<Rightarrow> request \<Rightarrow> event list \<Rightarrow> reply \<times> event list" where
  "webhook_campaign E = webhook (chain_campaign E) E"

subsection \<open>The test endpoint\<close>

definition test_donor :: "string \<Rightarrow> donor" where
  "test_donor mail =
     \<lparr>first_name = JStr ''Test'', last_name = JStr ''Donor'', email = JStr mail,
      phone = JStr ''555-1234''\<rparr>"

definition colorado_field :: custom_field where
  "colorado_field =
     \<lparr>field_id = JNum 64260, title = JStr ''Local Area'', field_value = JStr ''Colorado''\<rparr>"

definition testData_base :: "env \<Rightarrow> transaction" where
  "testData_base E =
     \<lparr>txn_id = JStr (''test_'' @ digits (clock_ms E)),
      amount = 2500,
      transacted_at = JStr (clock_iso E),
      campaign_id = JStr ''test-campaign'',
      campaign_title = JUndefined,
      own = test_donor ''test@example.com'',
      member = None,
      custom_fields = None,
      is_recurring = JUndefined,
      plan_id = JUndefined\<rparr>"

definition testData_field :: "env \<Rightarrow> transaction" where
  "testData_field E =
     \<lparr>txn_id = JStr (''test_'' @ digits (clock_ms E)),
      amount = 25,
      transacted_at = JStr (clock_iso E),
      campaign_id = JStr ''test-campaign'',
      campaign_title = JStr ''Test Campaign'',
      own = test_donor ''testdonor@example.com'',
      member = None,
      custom_fields = Some [colorado_field],
      is_recurring = JUndefined,
      plan_id = JUndefined\<rparr>"

definition testData_member :: "env \<Rightarrow> transaction" where
  "testData_member E =
     (testData_field E)\<lparr>campaign_id := JStr ''195519'', is_recurring := JBool True,
        plan_id := JNull\<rparr>"

definition testData_campaign :: "env \<Rightarrow> transaction" where
  "testData_campaign E = (testData_field E)\<lparr>campaign_id := JStr ''195519''\<rparr>"

text \<open>
  The handler of \<open>POST /test\<close>: it hands the test data itself to the contact resolver.
  The third variant's success answer leaves the contribution id out.
\<close>

definition handle_test ::
    "(donor \<Rightarrow> transaction \<Rightarrow> (jv \<times> jv) io) \<Rightarrow> bool \<Rightarrow> transaction \<Rightarrow> event list \<Rightarrow>
       reply \<times> event list" where
  "handle_test chain with_contribution testData tr =
     (case chain (own testData) testData tr of
        (Inl err, tr1) \<Rightarrow>
          (\<lparr>status = 500, body = Failed (message err)\<rparr>, tr1 @ [ErrorLog ''Test failed''])
      | (Inr ids, tr1) \<Rightarrow>
          (\<lparr>status = 200,
            body = TestSucceeded (fst ids) (if with_contribution then Some (snd ids) else None)\<rparr>,
           tr1))"

definition test_base :: "env \<Rightarrow> event list \<Rightarrow> reply \<times> event list" where
  "test_base E = handle_test (chain_base E) True (testData_base E)"

definition test_field :: "env \<Rightarrow> event list \<Rightarrow> reply \<times> event list" where
  "test_field E = handle_test (chain_field E) True (testData_field E)"

definition test_member :: "env \<Rightarrow> event list \<Rightarrow> reply \<times> event list" where
  "test_member E = handle_test (chain_member E) False (testData_member E)"

definition test_campaign :: "env \<Rightarrow> event list \<Rightarrow> reply \<times> event list" where
  "test_campaign E = handle_test (chain_campaign E) True (testData_campaign E)"

section \<open>Traces\<close>

text \<open>The CiviCRM calls of a trace, and the contribution payloads among them, in order.\<close>

fun calls :: "event list \<Rightarrow> call list" where
  "calls [] = []"
| "calls (CrmCall c # tr) = c # calls tr"
| "calls (PlanCall p # tr) = calls tr"
| "calls (ErrorLog s # tr) = calls tr"

definition contributions :: "event list \<Rightarrow> contribution list" where
  "contributions tr =
     concat (map (\<lambda>c. case params c of NewContribution p \<Rightarrow> [p] | _ \<Rightarrow> []) (calls tr))"

text \<open>The membership lookups (contact id and type asked for) and membership payloads.\<close>

definition membership_lookups :: "event list \<Rightarrow> (jv \<times> int) list" where
  "membership_lookups tr =
     concat (map (\<lambda>c. case params c of GetMembership i ty \<Rightarrow> [(i, ty)] | _ \<Rightarrow> []) (calls tr))"

definition memberships :: "event list \<Rightarrow> membership list" where
  "memberships tr =
     concat (map (\<lambda>c. case params c of SaveMembership m \<Rightarrow> [m] | _ \<Rightarrow> []) (calls tr))"

section \<open>A concrete environment\<close>

text \<open>
  A CiviCRM that knows no contact and no membership and answers every create call with
  the id 101, used to run the model on concrete requests.
\<close>

definition empty_answer :: response where
  "empty_answer = \<lparr>resp_id = JUndefined, resp_count = Some 0, resp_values = Some (Rows [])\<rparr>"

definition created_answer :: response where
  "created_answer = \<lparr>resp_id = JStr ''101'', resp_count = Some 1, resp_values = None\<rparr>"

definition fresh_crm :: "event list \<Rightarrow> call \<Rightarrow> error + response" where
  "fresh_crm tr c = (if action c = ''get'' then Inr empty_answer else Inr created_answer)"

definition demo_env :: env where
  "demo_env =
     \<lparr>crm = fresh_crm,
      plans = (\<lambda>tr p. Inl (HttpError ''Request failed with status code 404'')),
      GIVEBUTTER_WEBHOOK_SECRET = Some ''whsec'',
      GIVEBUTTER_API_KEY = None,
      hmac_sha256_hex = (\<lambda>k b. ''5f2a'' @ k),
      zone = utc_zone,
      clock = (\<lambda>n. \<lparr>year = 2025, month = 2, day = 15, millis = 43200000\<rparr>),
      clock_iso = ''2025-03-15T12:00:00.000Z'',
      clock_ms = 1742040000000\<rparr>"

text \<open>A CiviCRM that finds membership 55 with the given end date for every lookup.\<close>

definition found_membership :: "jsdate \<Rightarrow> response" where
  "found_membership e =
     \<lparr>resp_id = JUndefined, resp_count = Some 1,
      resp_values = Some (Rows [\<lparr>row_id = JStr ''55'', row_contact_id = JStr ''101'',
        custom_820 = JUndefined, row_end_date = e\<rparr>])\<rparr>"

definition renewing_crm :: "jsdate \<Rightarrow> event list \<Rightarrow> call \<Rightarrow> error + response" where
  "renewing_crm e tr c =
     (if action c = ''get'' then Inr (found_membership e) else Inr created_answer)"

definition renewing_env :: "jsdate \<Rightarrow> env" where
  "renewing_env e = demo_env\<lparr>crm := renewing_crm e\<rparr>"

text \<open>
  The same CiviCRM with a membership that ends on 8 March 2025, for a process that runs
  in the zone America/New_York at noon UTC of 1 March 2025.
\<close>

definition new_york_env :: env where
  "new_york_env =
     (renewing_env (Some \<lparr>year = 2025, month = 2, day = 8, millis = 0\<rparr>))
       \<lparr>zone := new_york,
        clock := (\<lambda>n. \<lparr>year = 2025, month = 2, day = 1, millis = 43200000\<rparr>)\<rparr>"

text \<open>
  A CiviCRM that knows no contact, books contributions, and fails every other call.
\<close>

definition failing_crm :: "event list \<Rightarrow> call \<Rightarrow> error + response" where
  "failing_crm tr c =
     (if entity c = ''Contribution'' then Inr created_answer
      else if entity c = ''Contact'' \<and> action c = ''get'' then Inr empty_answer
      else Inl (HttpError ''Request failed with status code 500''))"

definition failing_env :: env where
  "failing_env = demo_env\<lparr>crm := failing_crm\<rparr>"

text \<open>Contacts as the resolver returns them: a new one, and one with a stored local area.\<close>

definition new_contact :: contact_info where
  "new_contact = \<lparr>info_id = JStr ''101'', localArea = JNull\<rparr>"

definition chicago_contact :: contact_info where
  "chicago_contact = \<lparr>info_id = JStr ''77'', localArea = JStr ''Chicago''\<rparr>"

text \<open>
  A transaction whose local area field holds a text that is no label of the table but the
  name of a member every JavaScript object inherits.
\<close>

definition constructor_field :: custom_field where
  "constructor_field =
     \<lparr>field_id = JNum 64260, title = JStr ''Local Area'', field_value = JStr ''constructor''\<rparr>"

definition constructor_transaction :: transaction where
  "constructor_transaction =
     (testData_campaign demo_env)\<lparr>custom_fields := Some [constructor_field]\<rparr>"

section \<open>Calls of the contact resolver\<close>

definition lookup_call :: "donor \<Rightarrow> string option \<Rightarrow> call" where
  "lookup_call d ret = \<lparr>entity = ''Contact'', action = ''get'', params = GetContact (email d) ret\<rparr>"

definition create_call :: "donor \<Rightarrow> call" where
  "create_call d = \<lparr>entity = ''Contact'', action = ''create'', params = contact_params d\<rparr>"

definition contact_creates :: "event list \<Rightarrow> call list" where
  "contact_creates tr = filter (\<lambda>c. entity c = ''Contact'' \<and> action c = ''create'') (calls tr)"

text \<open>A CiviCRM that knows one contact, 77, with Chicago stored, under every email.\<close>

definition known_contact :: response where
  "known_contact =
     \<lparr>resp_id = JUndefined, resp_count = Some 1,
      resp_values = Some (Rows [\<lparr>row_id = JStr ''77'', row_contact_id = JStr ''77'',
        custom_820 = JStr ''Chicago'', row_end_date = None\<rparr>])\<rparr>"

definition known_crm :: "event list \<Rightarrow> call \<Rightarrow> error + response" where
  "known_crm tr c = (if action c = ''get'' then Inr known_contact else Inr created_answer)"

definition known_env :: env where
  "known_env = demo_env\<lparr>crm := known_crm\<rparr>"

section \<open>Concrete requests\<close>

text \<open>
  A request with an empty signature header, one with a wrong signature, one signed
  as the environment's HMAC prescribes, and one that was not signed.
\<close>

definition ping_request :: "string option \<Rightarrow> request" where
  "ping_request sig =
     \<lparr>signature = sig, body_text = ''{\"event\":\"ping\"}'', event_name = JStr ''ping'',
      payload = None\<rparr>"

definition donation_request :: "env \<Rightarrow> request" where
  "donation_request E =
     \<lparr>signature = None, body_text = ''{\"event\":\"transaction.succeeded\"}'',
      event_name = JStr ''transaction.succeeded'', payload = Some (testData_campaign E)\<rparr>"

text \<open>A CiviCRM that cannot be reached.\<close>

definition down_crm :: "event list \<Rightarrow> call \<Rightarrow> error + response" where
  "down_crm tr c = Inl (HttpError ''Network Error'')"

definition down_env :: env where
  "down_env = demo_env\<lparr>crm := down_crm\<rparr>"

section \<open>Calls issued by each operation\<close>

lemma calls_append [simp]: "calls (tr @ tr') = calls tr @ calls tr'"
  by (induction tr rule: calls.induct) simp_all

lemma contributions_append [simp]:
  "contributions (tr @ tr') = contributions tr @ contributions tr'"
  by (simp add: contributions_def)

lemma contributions_simps [simp]:
  "contributions [] = []"
  "contributions (ErrorLog s # tr) = contributions tr"
  "contributions (PlanCall p # tr) = contributions tr"
  by (simp_all add: contributions_def)

lemma calls_civiCRMApi:
  "calls (snd (civiCRMApi E ent act p tr)) =
     calls tr @ [\<lparr>entity = ent, action = act, params = p\<rparr>]"
  by (simp add: civiCRMApi_def Let_def split: sum.splits)

lemma civiCRMApi_calls:
  "civiCRMApi E ent act p tr = (r, tr') \<Longrightarrow>
     calls tr' = calls tr @ [\<lparr>entity = ent, action = act, params = p\<rparr>]"
  using calls_civiCRMApi[of E ent act p tr] by simp

lemma contributions_civiCRMApi:
  "contributions (snd (civiCRMApi E ent act p tr)) =
     contributions tr @ (case p of NewContribution x \<Rightarrow> [x] | _ \<Rightarrow> [])"
  by (simp add: contributions_def calls_civiCRMApi)

lemma calls_updateContactLocalArea:
  "calls (snd (updateContactLocalArea E c a tr)) =
     calls tr @ [\<lparr>entity = ''Contact'', action = ''create'', params = SetLocalArea c a\<rparr>]"
  using calls_civiCRMApi[of E "''Contact''" "''create''" "SetLocalArea c a" tr]
  by (auto simp add: updateContactLocalArea_def split: prod.splits sum.splits)

lemma updateContactLocalArea_returns: "fst (updateContactLocalArea E c a tr) = Inr ()"
  by (simp add: updateContactLocalArea_def split: prod.splits sum.splits)

lemma financialTypeId_campaign_returns:
  "\<exists>ft. fst (financialTypeId_campaign E ci t tr) = Inr ft"
  by (auto simp: financialTypeId_campaign_def updateContactLocalArea_def
      split: property.splits policy.splits prod.splits sum.splits)

lemma contributions_financialTypeId_campaign:
  "contributions (snd (financialTypeId_campaign E ci t tr)) = contributions tr"
  using calls_updateContactLocalArea[of E "info_id ci" "localAreaValue ci t" tr]
  by (auto simp: financialTypeId_campaign_def contributions_def
      split: property.splits policy.splits prod.splits sum.splits)

lemma contributions_base:
  "contributions (snd (createContribution_base E c t tr)) =
     contributions tr @ [contributionData_base E c t]"
  by (simp add: createContribution_base_def contributions_civiCRMApi)

lemma contributions_field:
  "contributions (snd (createContribution_field E c t tr)) =
     contributions tr @ [contributionData E c (financialTypeId_field t) t]"
  by (simp add: createContribution_field_def contributions_civiCRMApi)

lemma contributions_campaign:
  "\<exists>ft. contributions (snd (createContribution_campaign E ci t tr)) =
     contributions tr @ [contributionData E (info_id ci) ft t]"
  using financialTypeId_campaign_returns[of E ci t tr]
    contributions_financialTypeId_campaign[of E ci t tr]
  by (auto simp: createContribution_campaign_def contributions_civiCRMApi
      split: prod.splits sum.splits)

lemma contributions_renew_guarded:
  "renew_guarded E c k t f tr = (r, tr') \<Longrightarrow> contributions tr' = contributions tr"
  unfolding renew_guarded_def
  by (auto split: prod.splits sum.splits dest!: civiCRMApi_calls simp: contributions_def)

lemma contributions_createOrRenewMembership:
  "contributions (snd (createOrRenewMembership E c k t f tr)) = contributions tr"
  unfolding createOrRenewMembership_def
  by (auto split: prod.splits sum.splits dest!: contributions_renew_guarded)

lemma calls_resolve_frequency:
  "calls (snd (resolve_frequency E t tr)) = calls tr"
  by (auto simp: resolve_frequency_def getGivebutterPlan_def split: prod.splits sum.splits)

lemma contributions_member:
  "contributions (snd (createContribution_member E ci t tr)) =
     contributions (snd (createContribution_campaign E ci t tr))"
  using contributions_createOrRenewMembership calls_resolve_frequency
  unfolding createContribution_member_def
  apply (auto split: prod.splits sum.splits simp: contributions_def)
   apply (metis snd_conv)+
  done

section \<open>Amounts\<close>

text \<open>
  C9.  Every variant issues exactly one contribution-create call.  In the baseline its
  payload carries the event's amount divided by 100; in each of the three later variants
  it carries the event's amount unchanged.  The baseline and a later variant therefore put
  the same amount into their payloads exactly when dividing the amount by 100 gives the
  amount back.  (Amounts are exact rationals here; the rounding of JavaScript's binary
  floating point is not modelled.)
\<close>

theorem total_amount_by_variant:
  "map total_amount (contributions (snd (createContribution_base E c t tr))) =
     map total_amount (contributions tr) @ [amount t / 100] \<and>
   map total_amount (contributions (snd (createContribution_field E c t tr))) =
     map total_amount (contributions tr) @ [amount t] \<and>
   map total_amount (contributions (snd (createContribution_member E ci t tr))) =
     map total_amount (contributions tr) @ [amount t] \<and>
   map total_amount (contributions (snd (createContribution_campaign E ci t tr))) =
     map total_amount (contributions tr) @ [amount t] \<and>
   (map total_amount (contributions (snd (createContribution_base E c t tr))) =
      map total_amount (contributions (snd (createContribution_field E c t tr)))
    \<longleftrightarrow> amount t / 100 = amount t) \<and>
   (map total_amount (contributions (snd (createContribution_base E c t tr))) =
      map total_amount (contributions (snd (createContribution_member E ci t tr)))
    \<longleftrightarrow> amount t / 100 = amount t) \<and>
   (map total_amount (contributions (snd (createContribution_base E c t tr))) =
      map total_amount (contributions (snd (createContribution_campaign E ci t tr)))
    \<longleftrightarrow> amount t / 100 = amount t)"
proof -
  have base: "map total_amount (contributions (snd (createContribution_base E c t tr))) =
      map total_amount (contributions tr) @ [amount t / 100]"
    by (simp add: contributions_base contributionData_base_def)
  have field: "map total_amount (contributions (snd (createContribution_field E c t tr))) =
      map total_amount (contributions tr) @ [amount t]"
    by (simp add: contributions_field contributionData_def)
  obtain ft where "contributions (snd (createContribution_campaign E ci t tr)) =
      contributions tr @ [contributionData E (info_id ci) ft t]"
    using contributions_campaign by blast
  then have campaign:
    "map total_amount (contributions (snd (createContribution_campaign E ci t tr))) =
      map total_amount (contributions tr) @ [amount t]"
    by (simp add: contributionData_def)
  have member: "map total_amount (contributions (snd (createContribution_member E ci t tr))) =
      map total_amount (contributions tr) @ [amount t]"
    by (simp add: contributions_member campaign)
  show ?thesis
    by (simp add: base field campaign member)
qed

text \<open>
  The test data of the baseline carries the amount 2500 and is booked as 25; a later
  variant would book the same event as 2500.
\<close>

theorem total_amount_by_variant_witness:
  "map total_amount
     (contributions (snd (createContribution_base demo_env (JStr ''101'')
        (testData_base demo_env) []))) = [25] \<and>
   map total_amount
     (contributions (snd (createContribution_field demo_env (JStr ''101'')
        (testData_base demo_env) []))) = [2500]"
  using total_amount_by_variant[of demo_env "JStr ''101''" "testData_base demo_env" "[]"]
  by (simp add: testData_base_def)

section \<open>Membership type and duration\<close>

lemma membership_lookups_append [simp]:
  "membership_lookups (tr @ tr') = membership_lookups tr @ membership_lookups tr'"
  by (simp add: membership_lookups_def)

lemma memberships_append [simp]:
  "memberships (tr @ tr') = memberships tr @ memberships tr'"
  by (simp add: memberships_def)

lemma membership_simps [simp]:
  "membership_lookups [] = []"
  "membership_lookups (ErrorLog s # tr) = membership_lookups tr"
  "membership_lookups (PlanCall p # tr) = membership_lookups tr"
  "memberships [] = []"
  "memberships (ErrorLog s # tr) = memberships tr"
  "memberships (PlanCall p # tr) = memberships tr"
  by (simp_all add: membership_lookups_def memberships_def)

lemma renewal_window_shape:
  "\<exists>s e. renewal_window Z today sd (advance Z ed sd dur) x dur = (s, advance Z e s dur) \<and>
     (e = s \<or> (s = sd \<and> e = ed))"
proof (cases "date_gt x today")
  case False
  then have "renewal_window Z today sd (advance Z ed sd dur) x dur = (sd, advance Z ed sd dur)"
    by (simp add: renewal_window_def)
  then show ?thesis by blast
next
  case True
  then obtain a where a: "x = Some a" by (cases x) (simp_all add: date_gt_def)
  have "renewal_window Z today sd (advance Z ed sd dur) x dur =
      (setDate Z a (getDate Z a + 1),
       advance Z (setDate Z a (getDate Z a + 1)) (setDate Z a (getDate Z a + 1)) dur)"
    using True a by (simp add: renewal_window_def Let_def)
  then show ?thesis by blast
qed

lemma membershipData_type:
  assumes "membershipData E c k t f ex = Inr m"
  shows "membership_type_id m = fst (membershipType t f) \<and>
     (\<exists>s e. start_date m = iso_day s \<and>
          end_date m = iso_day (advance (zone E) e s (snd (membershipType t f))) \<and>
          (e = s \<or> (s = clock E 1 \<and> e = clock E 2)))"
proof (cases "count_positive ex")
  case False
  with assms have
    "membership_type_id m = fst (membershipType t f)" "start_date m = iso_day (clock E 1)"
    "end_date m = iso_day (advance (zone E) (clock E 2) (clock E 1) (snd (membershipType t f)))"
    by (auto simp: membershipData_def Let_def)
  then show ?thesis by blast
next
  case True
  with assms obtain v r where v: "resp_values ex = Some v" "elem0 v = Some r"
    by (auto simp: membershipData_def Let_def split: option.splits)
  obtain s e where w: "renewal_window (zone E) (clock E 0) (clock E 1)
        (advance (zone E) (clock E 2) (clock E 1) (snd (membershipType t f)))
        (row_end_date r) (snd (membershipType t f)) =
        (s, advance (zone E) e s (snd (membershipType t f)))"
      "e = s \<or> (s = clock E 1 \<and> e = clock E 2)"
    using renewal_window_shape by blast
  from assms True v w(1) have
    "membership_type_id m = fst (membershipType t f)" "start_date m = iso_day s"
    "end_date m = iso_day (advance (zone E) e s (snd (membershipType t f)))"
    by (auto simp: membershipData_def Let_def)
  with w(2) show ?thesis by blast
qed

lemma renew_guarded_lookups:
  "renew_guarded E c k t f tr = (r, tr') \<Longrightarrow>
     membership_lookups tr' = membership_lookups tr @ [(c, fst (membershipType t f))]"
  unfolding renew_guarded_def
  by (auto split: prod.splits sum.splits dest!: civiCRMApi_calls simp: membership_lookups_def)

lemma renew_guarded_memberships:
  "renew_guarded E c k t f tr = (r, tr') \<Longrightarrow>
     \<exists>ms. memberships tr' = memberships tr @ ms \<and> length ms \<le> 1 \<and>
       (\<forall>m \<in> set ms. \<exists>ex. membershipData E c k t f ex = Inr m)"
  unfolding renew_guarded_def
  by (auto split: prod.splits sum.splits dest!: civiCRMApi_calls simp: memberships_def)

lemma upsert_lookups:
  "membership_lookups (snd (createOrRenewMembership E c k t f tr)) =
     membership_lookups tr @ [(c, fst (membershipType t f))]"
  unfolding createOrRenewMembership_def
  by (auto split: prod.splits sum.splits dest!: renew_guarded_lookups)

lemma upsert_memberships:
  "\<exists>ms. memberships (snd (createOrRenewMembership E c k t f tr)) = memberships tr @ ms \<and>
     length ms \<le> 1 \<and>
     (\<forall>m \<in> set ms. membership_type_id m = fst (membershipType t f) \<and>
        (\<exists>s e. start_date m = iso_day s \<and>
             end_date m = iso_day (advance (zone E) e s (snd (membershipType t f))) \<and>
             (e = s \<or> (s = clock E 1 \<and> e = clock E 2))))"
proof -
  obtain r tr' where rg: "renew_guarded E c k t f tr = (r, tr')"
    by (cases "renew_guarded E c k t f tr")
  from renew_guarded_memberships[OF rg] obtain ms where
    ms: "memberships tr' = memberships tr @ ms" "length ms \<le> 1"
      "\<forall>m \<in> set ms. \<exists>ex. membershipData E c k t f ex = Inr m"
    by blast
  have "memberships (snd (createOrRenewMembership E c k t f tr)) = memberships tr @ ms"
    using rg ms(1) by (auto simp: createOrRenewMembership_def split: sum.splits)
  moreover have "\<forall>m \<in> set ms. membership_type_id m = fst (membershipType t f) \<and>
        (\<exists>s e. start_date m = iso_day s \<and>
             end_date m = iso_day (advance (zone E) e s (snd (membershipType t f))) \<and>
             (e = s \<or> (s = clock E 1 \<and> e = clock E 2)))"
    using ms(3) membershipData_type by blast
  ultimately show ?thesis using ms(2) by blast
qed

lemma resolve_frequency_unresolved:
  "\<not> truthy (plan_id t) \<or> \<not> has_api_key E \<or> plans E tr (plan_id t) = Inl err \<Longrightarrow>
     fst (resolve_frequency E t tr) = Inr JNull"
  by (auto simp: resolve_frequency_def getGivebutterPlan_def plan_frequency_def
      split: prod.splits sum.splits)

lemma resolve_frequency_resolved:
  "truthy (plan_id t) \<Longrightarrow> has_api_key E \<Longrightarrow> plans E tr (plan_id t) = Inr p \<Longrightarrow>
     fst (resolve_frequency E t tr) = Inr (if truthy (frequency p) then frequency p else JNull)"
  by (auto simp: resolve_frequency_def getGivebutterPlan_def plan_frequency_def
      split: prod.splits sum.splits)

lemma resolve_frequency_returns: "\<exists>f. fst (resolve_frequency E t tr) = Inr f"
  by (auto simp: resolve_frequency_def getGivebutterPlan_def plan_frequency_def
      split: prod.splits sum.splits)

lemma createOrRenewMembership_returns: "\<exists>i. fst (createOrRenewMembership E c k t f tr) = Inr i"
  by (auto simp: createOrRenewMembership_def split: prod.splits sum.splits)

lemma member_hands_frequency:
  "createContribution_campaign E ci t tr = (Inr result, tr1) \<Longrightarrow>
   campaign_id t = JStr ''195519'' \<Longrightarrow>
   snd (createContribution_member E ci t tr) =
     snd (createOrRenewMembership E (info_id ci) (extract_id result) t
            (projr (fst (resolve_frequency E t tr1))) (snd (resolve_frequency E t tr1)))"
  using resolve_frequency_returns[of E t tr1]
  unfolding createContribution_member_def
  by (auto split: prod.splits sum.splits)

text \<open>
  C4.  The membership type and duration follow the decision table: not recurring gives type
  11 for one year; recurring with frequency "monthly" type 10 for one month; with "yearly"
  or "annual" type 9 for one year; with "quarterly" type 10 for three months; with any
  other frequency type 11 for one year.  The frequency is \<open>null\<close>, hence "other", when the
  transaction has no plan id, when no API key is configured, or when the plan read fails;
  otherwise it is what the plan answer carries.  \<open>createContribution\<close> hands that frequency
  to the upsert, whose lookup asks for the type of the table and whose payload (at most
  one) carries that type and a window of the table's duration: its end date is printed
  from a date moved on by that duration, which is a copy of the start date or, when start
  and end both come from the clock, the clock's reading for the end date.
\<close>

theorem membership_decision_table:
  "(\<not> truthy (is_recurring t) \<longrightarrow> membershipType t f = (11, Years 1)) \<and>
   (truthy (is_recurring t) \<and> f = JStr ''monthly'' \<longrightarrow> membershipType t f = (10, Months 1)) \<and>
   (truthy (is_recurring t) \<and> (f = JStr ''yearly'' \<or> f = JStr ''annual'') \<longrightarrow>
      membershipType t f = (9, Years 1)) \<and>
   (truthy (is_recurring t) \<and> f = JStr ''quarterly'' \<longrightarrow> membershipType t f = (10, Months 3)) \<and>
   (truthy (is_recurring t) \<and>
      f \<notin> {JStr ''monthly'', JStr ''yearly'', JStr ''annual'', JStr ''quarterly''} \<longrightarrow>
      membershipType t f = (11, Years 1)) \<and>
   (\<not> truthy (plan_id t) \<or> \<not> has_api_key E \<or> plans E tr (plan_id t) = Inl err \<longrightarrow>
      fst (resolve_frequency E t tr) = Inr JNull) \<and>
   (truthy (plan_id t) \<and> has_api_key E \<and> plans E tr (plan_id t) = Inr p \<longrightarrow>
      fst (resolve_frequency E t tr) =
        Inr (if truthy (frequency p) then frequency p else JNull)) \<and>
   (createContribution_campaign E ci t tr = (Inr result, tr1) \<and>
      campaign_id t = JStr ''195519'' \<longrightarrow>
      snd (createContribution_member E ci t tr) =
        snd (createOrRenewMembership E (info_id ci) (extract_id result) t
               (projr (fst (resolve_frequency E t tr1))) (snd (resolve_frequency E t tr1)))) \<and>
   membership_lookups (snd (createOrRenewMembership E c k t f tr)) =
     membership_lookups tr @ [(c, fst (membershipType t f))] \<and>
   (\<exists>ms. memberships (snd (createOrRenewMembership E c k t f tr)) = memberships tr @ ms \<and>
      length ms \<le> 1 \<and>
      (\<forall>m \<in> set ms. membership_type_id m = fst (membershipType t f) \<and>
         (\<exists>s e. start_date m = iso_day s \<and>
              end_date m = iso_day (advance (zone E) e s (snd (membershipType t f))) \<and>
              (e = s \<or> (s = clock E 1 \<and> e = clock E 2)))))"
proof -
  have table:
    "\<not> truthy (is_recurring t) \<longrightarrow> membershipType t f = (11, Years 1)"
    "truthy (is_recurring t) \<and> f = JStr ''monthly'' \<longrightarrow> membershipType t f = (10, Months 1)"
    "truthy (is_recurring t) \<and> (f = JStr ''yearly'' \<or> f = JStr ''annual'') \<longrightarrow>
      membershipType t f = (9, Years 1)"
    "truthy (is_recurring t) \<and> f = JStr ''quarterly'' \<longrightarrow> membershipType t f = (10, Months 3)"
    "truthy (is_recurring t) \<and>
      f \<notin> {JStr ''monthly'', JStr ''yearly'', JStr ''annual'', JStr ''quarterly''} \<longrightarrow>
      membershipType t f = (11, Years 1)"
    by (auto simp: membershipType_def)
  have unresolved:
    "\<not> truthy (plan_id t) \<or> \<not> has_api_key E \<or> plans E tr (plan_id t) = Inl err \<longrightarrow>
      fst (resolve_frequency E t tr) = Inr JNull"
    using resolve_frequency_unresolved[of t E tr err] by (rule impI)
  have resolved:
    "truthy (plan_id t) \<and> has_api_key E \<and> plans E tr (plan_id t) = Inr p \<longrightarrow>
      fst (resolve_frequency E t tr) =
        Inr (if truthy (frequency p) then frequency p else JNull)"
    using resolve_frequency_resolved[of t E tr p] by simp
  have handed:
    "createContribution_campaign E ci t tr = (Inr result, tr1) \<and>
      campaign_id t = JStr ''195519'' \<longrightarrow>
      snd (createContribution_member E ci t tr) =
        snd (createOrRenewMembership E (info_id ci) (extract_id result) t
               (projr (fst (resolve_frequency E t tr1))) (snd (resolve_frequency E t tr1)))"
    using member_hands_frequency[of E ci t tr result tr1] by simp
  show ?thesis
    using table unresolved resolved handed
      upsert_lookups[of E c k t f tr] upsert_memberships[of E c k t f tr]
    by - (intro conjI; assumption)
qed

text \<open>
  The table on the recurring test transaction of the third variant, for four frequencies,
  and on a transaction that is not recurring.
\<close>

theorem membership_decision_table_witness:
  "membershipType (testData_member demo_env) (JStr ''monthly'') = (10, Months 1) \<and>
   membershipType (testData_member demo_env) (JStr ''annual'') = (9, Years 1) \<and>
   membershipType (testData_member demo_env) (JStr ''quarterly'') = (10, Months 3) \<and>
   membershipType (testData_member demo_env) JNull = (11, Years 1) \<and>
   membershipType (testData_field demo_env) (JStr ''monthly'') = (11, Years 1) \<and>
   fst (resolve_frequency demo_env (testData_member demo_env) []) = Inr JNull \<and>
   membership_lookups (snd (createOrRenewMembership demo_env (JStr ''101'') (JStr ''101'')
      (testData_member demo_env) JNull [])) = [(JStr ''101'', 11)]"
  using membership_decision_table[of "testData_member demo_env" "JStr ''monthly''" demo_env "[]"]
    membership_decision_table[of "testData_member demo_env" "JStr ''annual''" demo_env "[]"]
    membership_decision_table[of "testData_member demo_env" "JStr ''quarterly''" demo_env "[]"]
    membership_decision_table[of "testData_member demo_env" JNull demo_env "[]" _ _ _ _ _
       "JStr ''101''" "JStr ''101''"]
    membership_decision_table[of "testData_field demo_env" "JStr ''monthly''" demo_env "[]"]
  by (simp add: testData_member_def testData_field_def)

section \<open>Membership window\<close>

lemma days_in_month_bounds: "28 \<le> days_in_month y m" "days_in_month y m \<le> 31"
  by (simp_all add: days_in_month_def)

lemma roll_once:
  assumes "1 \<le> d" "d \<le> days_in_month y m + 28"
  shows "roll y m d =
     (if d \<le> days_in_month y m then (y, m, d)
      else (fst (next_month y m), snd (next_month y m), d - days_in_month y m))"
proof (cases "d \<le> days_in_month y m")
  case True
  with assms show ?thesis by (subst roll.simps) simp
next
  case False
  let ?y = "fst (next_month y m)" and ?m = "snd (next_month y m)"
  let ?d = "d - days_in_month y m"
  have "1 \<le> ?d" "?d \<le> days_in_month ?y ?m"
    using False assms days_in_month_bounds(1)[of ?y ?m] by simp_all
  then have "roll ?y ?m ?d = (?y, ?m, ?d)" by (subst roll.simps) simp
  with False show ?thesis by (subst roll.simps) simp
qed

lemma make_day_month:
  "0 \<le> m \<Longrightarrow> m \<le> 11 \<Longrightarrow> make_day y m d = roll y m d"
  by (simp add: make_day_def)

lemma shift_zero:
  assumes "calendar i"
  shows "shift i 0 = i"
proof -
  have "roll (year i) (month i) (day i) = (year i, month i, day i)"
    using assms roll_once[of "day i" "year i" "month i"] by (simp add: calendar_def)
  then show ?thesis using assms by (simp add: shift_def with_day_def calendar_def)
qed

lemma utc_zone_times:
  "calendar i \<Longrightarrow> LocalTime utc_zone i = i"
  "calendar i \<Longrightarrow> UTC utc_zone i = i"
  by (simp_all add: LocalTime_def UTC_def utc_zone_def shift_zero)

lemma setDate_next:
  assumes "calendar e"
  shows "iso_day (setDate utc_zone e (getDate utc_zone e + 1)) = day_after (iso_day e)"
    and "calendar (setDate utc_zone e (getDate utc_zone e + 1))"
proof -
  have m: "0 \<le> month e" "month e \<le> 11"
    and d: "1 \<le> day e" "day e \<le> days_in_month (year e) (month e)"
    and ms: "0 \<le> millis e" "millis e < 86400000"
    using assms by (simp_all add: calendar_def)
  let ?l = "with_day e (make_day (year e) (month e) (day e + 1))"
  have r: "make_day (year e) (month e) (day e + 1) =
      (if day e + 1 \<le> days_in_month (year e) (month e) then (year e, month e, day e + 1)
       else (fst (next_month (year e) (month e)), snd (next_month (year e) (month e)), 1))"
    using m d roll_once[of "day e + 1" "year e" "month e"]
    by (auto simp: make_day_month)
  have c: "calendar ?l"
    using m d ms days_in_month_bounds(1)
    by (auto simp: r with_day_def calendar_def next_month_def intro: order_trans[of 1 28])
  have s: "setDate utc_zone e (getDate utc_zone e + 1) = ?l"
    using assms c by (simp add: setDate_def getDate_def utc_zone_times)
  show "iso_day (setDate utc_zone e (getDate utc_zone e + 1)) = day_after (iso_day e)"
    using m d by (auto simp: s r with_day_def iso_day_def day_after_def next_month_def)
  show "calendar (setDate utc_zone e (getDate utc_zone e + 1))"
    using c s by simp
qed

lemma roll_run_over:
  assumes "0 \<le> m" "m \<le> 11" "1 \<le> d" "d \<le> 31"
  shows "(case roll y m d of (y', m', d') \<Rightarrow> (y', m' + 1, d')) = run_over (y, m + 1, d)"
    and "(case roll y m d of (y', m', d') \<Rightarrow>
            0 \<le> m' \<and> m' \<le> 11 \<and> 1 \<le> d' \<and> d' \<le> days_in_month y' m')"
proof -
  have b: "d \<le> days_in_month y m + 28"
    using assms(4) days_in_month_bounds(1)[of y m] by simp
  from roll_once[OF assms(3) b] show
    "(case roll y m d of (y', m', d') \<Rightarrow> (y', m' + 1, d')) = run_over (y, m + 1, d)"
    using assms by (auto simp: run_over_def next_month_def)
  from roll_once[OF assms(3) b] show "(case roll y m d of (y', m', d') \<Rightarrow>
            0 \<le> m' \<and> m' \<le> 11 \<and> 1 \<le> d' \<and> d' \<le> days_in_month y' m')"
    using assms days_in_month_bounds(1)[of "fst (next_month y m)" "snd (next_month y m)"]
      days_in_month_bounds(1)[of y m]
    by (auto simp: next_month_def)
qed

lemma advance_plus:
  assumes "calendar s" "calendar e" "iso_day e = iso_day s"
  shows "iso_day (advance utc_zone e s dur) = plus_duration (iso_day s) dur"
proof -
  have m: "0 \<le> month s" "month s \<le> 11"
    and d: "1 \<le> day s" "day s \<le> days_in_month (year s) (month s)"
    using assms(1) by (simp_all add: calendar_def)
  have eq: "year e = year s" "month e = month s" "day e = day s"
    using assms(3) by (simp_all add: iso_day_def)
  have ms: "0 \<le> millis e" "millis e < 86400000"
    using assms(2) by (simp_all add: calendar_def)
  have d31: "day s \<le> 31" using d(2) days_in_month_bounds(2)[of "year s" "month s"] by simp
  have same: "run_over (year s, month s + 1, day s) = (year s, month s + 1, day s)"
    using d by (simp add: run_over_def)
  have loc: "LocalTime utc_zone e = e" "LocalTime utc_zone s = s"
    using assms by (simp_all add: utc_zone_times)
  have stays: "UTC utc_zone (with_day e (roll y n (day s))) = with_day e (roll y n (day s))"
    if n: "0 \<le> n" "n \<le> 11" for y n
    using roll_run_over(2)[OF n d(1) d31, of y] ms
    by (intro utc_zone_times(2)) (auto simp: calendar_def with_day_def split: prod.splits)
  show ?thesis
  proof (cases dur)
    case (Years k)
    have "iso_day (setFullYear utc_zone e (year s + k)) =
        run_over (year s + k, month s + 1, day s)"
      using roll_run_over(1)[OF m d(1) d31, of "year s + k"] m stays[OF m, of "year s + k"]
      by (simp add: setFullYear_def loc eq make_day_month with_day_def iso_day_def
          split: prod.splits)
    then show ?thesis
      using Years same eq
      by (simp add: advance_def getFullYear_def loc plus_duration_def iso_day_def)
  next
    case (Months k)
    have mm: "0 \<le> (month s + k) mod 12" "(month s + k) mod 12 \<le> 11"
      by simp_all
    have "iso_day (setMonth utc_zone e (month s + k)) =
        run_over (year s + (month s + k) div 12, (month s + k) mod 12 + 1, day s)"
      using roll_run_over(1)[OF mm d(1) d31, of "year s + (month s + k) div 12"]
        stays[OF mm, of "year s + (month s + k) div 12"]
      by (simp add: setMonth_def loc eq make_day_def with_day_def iso_day_def split: prod.splits)
    moreover have "month s div 12 = 0" "month s mod 12 = month s"
      using m by simp_all
    ultimately show ?thesis
      using Months same eq
      by (simp add: advance_def getMonth_def loc plus_duration_def iso_day_def)
  qed
qed

lemma membershipType_durations:
  "snd (membershipType t f) \<in> {Months 1, Months 3, Years 1}"
  by (simp add: membershipType_def)

lemma renewal_window_utc:
  assumes "calendar sd" "calendar ed" "iso_day ed = iso_day sd"
    and "case x of None \<Rightarrow> True | Some e \<Rightarrow> calendar e"
  shows "iso_day (fst (renewal_window utc_zone today sd (advance utc_zone ed sd dur) x dur)) =
           (case x of
              None \<Rightarrow> iso_day sd
            | Some e \<Rightarrow> if later e today then day_after (iso_day e) else iso_day sd)"
    and "iso_day (snd (renewal_window utc_zone today sd (advance utc_zone ed sd dur) x dur)) =
           plus_duration
             (iso_day (fst (renewal_window utc_zone today sd (advance utc_zone ed sd dur) x dur)))
             dur"
  using assms setDate_next advance_plus
  by (auto simp: renewal_window_def date_gt_def Let_def split: option.splits)

lemma membershipData_found:
  assumes "count_positive ex" "resp_values ex = Some v" "elem0 v = Some r"
    and "zone E = utc_zone"
    and "calendar (clock E 1)" "calendar (clock E 2)" "iso_day (clock E 2) = iso_day (clock E 1)"
    and "case row_end_date r of None \<Rightarrow> True | Some e \<Rightarrow> calendar e"
  shows "\<exists>m. membershipData E c k t f ex = Inr m \<and> m_id m = row_id r \<and>
      start_date m =
        (case row_end_date r of
           None \<Rightarrow> iso_day (clock E 1)
         | Some e \<Rightarrow>
             if later e (clock E 0) then day_after (iso_day e) else iso_day (clock E 1)) \<and>
      end_date m = plus_duration (start_date m) (snd (membershipType t f))"
  using assms(1-4) renewal_window_utc[OF assms(5-8)]
  by (simp add: membershipData_def Let_def)

lemma renew_guarded_payload:
  assumes "crm E tr \<lparr>entity = ''Membership'', action = ''get'',
              params = GetMembership c (fst (membershipType t f))\<rparr> = Inr ex"
    and "membershipData E c k t f ex = Inr m"
  shows "memberships (snd (createOrRenewMembership E c k t f tr)) = memberships tr @ [m]"
proof -
  have g: "civiCRMApi E ''Membership'' ''get'' (GetMembership c (fst (membershipType t f))) tr =
      (Inr ex, tr @ [CrmCall \<lparr>entity = ''Membership'', action = ''get'',
              params = GetMembership c (fst (membershipType t f))\<rparr>])"
    using assms(1) by (simp add: civiCRMApi_def)
  obtain r tr2 where s: "civiCRMApi E ''Membership'' ''create'' (SaveMembership m)
       (tr @ [CrmCall \<lparr>entity = ''Membership'', action = ''get'',
              params = GetMembership c (fst (membershipType t f))\<rparr>]) = (r, tr2)"
    by (cases "civiCRMApi E ''Membership'' ''create'' (SaveMembership m)
       (tr @ [CrmCall \<lparr>entity = ''Membership'', action = ''get'',
              params = GetMembership c (fst (membershipType t f))\<rparr>])")
  have "memberships tr2 = memberships tr @ [m]"
    using civiCRMApi_calls[OF s] by (simp add: memberships_def)
  then show ?thesis
    using g s assms(2)
    by (auto simp: createOrRenewMembership_def renew_guarded_def split: sum.splits)
qed

lemma membership_window_utc:
  assumes "crm E tr \<lparr>entity = ''Membership'', action = ''get'',
              params = GetMembership c (fst (membershipType t f))\<rparr> = Inr ex"
    and "count_positive ex" "resp_values ex = Some v" "elem0 v = Some r"
    and "zone E = utc_zone"
    and "calendar (clock E 1)" "calendar (clock E 2)" "iso_day (clock E 2) = iso_day (clock E 1)"
    and "case row_end_date r of None \<Rightarrow> True | Some e \<Rightarrow> calendar e"
  shows "\<exists>m. memberships (snd (createOrRenewMembership E c k t f tr)) = memberships tr @ [m] \<and>
      m_id m = row_id r \<and>
      start_date m =
        (case row_end_date r of
           None \<Rightarrow> iso_day (clock E 1)
         | Some e \<Rightarrow>
             if later e (clock E 0) then day_after (iso_day e) else iso_day (clock E 1)) \<and>
      end_date m = plus_duration (start_date m) (snd (membershipType t f)) \<and>
      snd (membershipType t f) \<in> {Months 1, Months 3, Years 1}"
proof -
  from membershipData_found[OF assms(2-9)] obtain m where
    m: "membershipData E c k t f ex = Inr m" "m_id m = row_id r"
      "start_date m =
        (case row_end_date r of
           None \<Rightarrow> iso_day (clock E 1)
         | Some e \<Rightarrow>
             if later e (clock E 0) then day_after (iso_day e) else iso_day (clock E 1))"
      "end_date m = plus_duration (start_date m) (snd (membershipType t f))"
    by blast
  from renew_guarded_payload[OF assms(1) m(1)] m(2-4) membershipType_durations[of t f]
  show ?thesis by blast
qed

text \<open>
  The same steps in the zone America/New_York, for a membership that ends on 8 March 2025:
  midnight UTC of that day is the evening of 7 March there, and the evening of 8 April is
  an hour nearer to UTC midnight than the evening of 8 March, daylight saving time having
  begun in between.
\<close>

lemma new_york_local:
  "LocalTime new_york \<lparr>year = 2025, month = 2, day = 8, millis = 0\<rparr> =
     \<lparr>year = 2025, month = 2, day = 7, millis = 68400000\<rparr>"
  "UTC new_york \<lparr>year = 2025, month = 2, day = 8, millis = 68400000\<rparr> =
     \<lparr>year = 2025, month = 2, day = 9, millis = 0\<rparr>"
  "LocalTime new_york \<lparr>year = 2025, month = 2, day = 9, millis = 0\<rparr> =
     \<lparr>year = 2025, month = 2, day = 8, millis = 68400000\<rparr>"
  "UTC new_york \<lparr>year = 2025, month = 3, day = 8, millis = 68400000\<rparr> =
     \<lparr>year = 2025, month = 3, day = 8, millis = 82800000\<rparr>"
  by (simp_all add: LocalTime_def UTC_def new_york_def shift_def later_def with_day_def
      roll_once days_in_month_def)

lemma new_york_start:
  "setDate new_york \<lparr>year = 2025, month = 2, day = 8, millis = 0\<rparr>
     (getDate new_york \<lparr>year = 2025, month = 2, day = 8, millis = 0\<rparr> + 1) =
   \<lparr>year = 2025, month = 2, day = 9, millis = 0\<rparr>"
  by (simp add: setDate_def getDate_def new_york_local make_day_def with_day_def roll_once
      days_in_month_def)

lemma new_york_end:
  "advance new_york \<lparr>year = 2025, month = 2, day = 9, millis = 0\<rparr>
     \<lparr>year = 2025, month = 2, day = 9, millis = 0\<rparr> (Months 1) =
   \<lparr>year = 2025, month = 3, day = 8, millis = 82800000\<rparr>"
  by (simp add: advance_def setMonth_def getMonth_def new_york_local make_day_def with_day_def
      roll_once days_in_month_def)

text \<open>
  In UTC, on 15 March 2025 and with a monthly recurring transaction: a membership that
  ended yesterday is renewed from today to 15 April; one that ends on 14 May is renewed
  from 15 May to 15 June.
\<close>

lemma membership_window_utc_example:
  "(\<exists>m. memberships (snd (createOrRenewMembership
        (renewing_env (Some \<lparr>year = 2025, month = 2, day = 14, millis = 0\<rparr>))
        (JStr ''101'') (JStr ''7'') (testData_member demo_env) (JStr ''monthly'') [])) = [m] \<and>
      start_date m = (2025, 3, 15) \<and> end_date m = (2025, 4, 15)) \<and>
   (\<exists>m. memberships (snd (createOrRenewMembership
        (renewing_env (Some \<lparr>year = 2025, month = 4, day = 14, millis = 0\<rparr>))
        (JStr ''101'') (JStr ''7'') (testData_member demo_env) (JStr ''monthly'') [])) = [m] \<and>
      start_date m = (2025, 5, 15) \<and> end_date m = (2025, 6, 15))"
proof -
  let ?t = "testData_member demo_env"
  have ty: "membershipType ?t (JStr ''monthly'') = (10, Months 1)"
    by (simp add: membershipType_def testData_member_def)
  have now: "clock (renewing_env e) n = \<lparr>year = 2025, month = 2, day = 15, millis = 43200000\<rparr>"
    for e n by (simp add: renewing_env_def demo_env_def)
  have z: "zone (renewing_env e) = utc_zone" for e
    by (simp add: renewing_env_def demo_env_def)
  have cal: "calendar (clock (renewing_env e) n)" for e n
    by (simp add: now calendar_def days_in_month_def)
  have same: "iso_day (clock (renewing_env e) 2) = iso_day (clock (renewing_env e) 1)" for e
    by (simp add: now)
  have look: "crm (renewing_env e) [] \<lparr>entity = ''Membership'', action = ''get'',
      params = GetMembership (JStr ''101'') (fst (membershipType ?t (JStr ''monthly'')))\<rparr> =
      Inr (found_membership e)" for e
    by (simp add: renewing_env_def renewing_crm_def)
  have cnt: "count_positive (found_membership e)" for e
    by (simp add: found_membership_def count_positive_def)
  let ?row = "\<lambda>e. \<lparr>row_id = JStr ''55'', row_contact_id = JStr ''101'',
              custom_820 = JUndefined, row_end_date = e\<rparr>"
  have vs: "resp_values (found_membership e) = Some (Rows [?row e])" for e
    by (simp add: found_membership_def)
  have el: "elem0 (Rows [?row e]) = Some (?row e)" for e by simp
  let ?y = "\<lparr>year = 2025, month = 2, day = 14, millis = 0\<rparr>"
  let ?f = "\<lparr>year = 2025, month = 4, day = 14, millis = 0\<rparr>"
  have cy: "case row_end_date (?row (Some ?y)) of None \<Rightarrow> True | Some e \<Rightarrow> calendar e"
    by (simp add: calendar_def days_in_month_def)
  have cf: "case row_end_date (?row (Some ?f)) of None \<Rightarrow> True | Some e \<Rightarrow> calendar e"
    by (simp add: calendar_def days_in_month_def)
  have a: "\<exists>m. memberships (snd (createOrRenewMembership (renewing_env (Some ?y))
        (JStr ''101'') (JStr ''7'') ?t (JStr ''monthly'') [])) = [m] \<and>
      start_date m = (2025, 3, 15) \<and> end_date m = (2025, 4, 15)"
  proof -
    from membership_window_utc[OF look cnt vs el z cal cal same cy, of "JStr ''7''"] obtain m where
      m: "memberships (snd (createOrRenewMembership (renewing_env (Some ?y))
            (JStr ''101'') (JStr ''7'') ?t (JStr ''monthly'') [])) = [m]"
        "start_date m = (2025, 3, 15)"
        "end_date m = plus_duration (start_date m) (Months 1)"
      by (auto simp: ty now later_def iso_day_def)
    have "end_date m = (2025, 4, 15)"
      by (simp add: m(2,3) plus_duration_def run_over_def days_in_month_def)
    with m(1,2) show ?thesis by blast
  qed
  have b: "\<exists>m. memberships (snd (createOrRenewMembership (renewing_env (Some ?f))
        (JStr ''101'') (JStr ''7'') ?t (JStr ''monthly'') [])) = [m] \<and>
      start_date m = (2025, 5, 15) \<and> end_date m = (2025, 6, 15)"
  proof -
    from membership_window_utc[OF look cnt vs el z cal cal same cf, of "JStr ''7''"] obtain m where
      m: "memberships (snd (createOrRenewMembership (renewing_env (Some ?f))
            (JStr ''101'') (JStr ''7'') ?t (JStr ''monthly'') [])) = [m]"
        "start_date m = (2025, 5, 15)"
        "end_date m = plus_duration (start_date m) (Months 1)"
      by (auto simp: ty now later_def iso_day_def day_after_def days_in_month_def)
    have "end_date m = (2025, 6, 15)"
      by (simp add: m(2,3) plus_duration_def run_over_def days_in_month_def)
    with m(1,2) show ?thesis by blast
  qed
  from a b show ?thesis by (rule conjI)
qed

text \<open>A month added to the last day of January ends in March.\<close>

lemma plus_duration_runs_over: "plus_duration (2025, 1, 31) (Months 1) = (2025, 3, 3)"
  by (simp add: plus_duration_def run_over_def days_in_month_def leap_year_def)

text \<open>
  C3.  The claim: when an existing membership is found, the new window starts on the day
  after its end date if that lies in the future and today otherwise, and ends on the start
  date plus the resolved duration.  The lemma \<open>membership_window_utc\<close> above proves this
  for a process in UTC whose clock readings fall on one day.  It does not hold for every
  process: the code adds the day and the duration on the fields of local time and prints
  the fields of UTC.  In the zone America/New_York, for a monthly recurring transaction
  and a membership that ends on 8 March 2025, the payload starts on 9 March, the day
  after, but ends on 8 April, a day short of 9 March plus one month.
\<close>

theorem window_in_new_york:
  "map start_date (memberships (snd (createOrRenewMembership new_york_env (JStr ''101'')
      (JStr ''7'') (testData_member demo_env) (JStr ''monthly'') []))) = [(2025, 3, 9)] \<and>
   map end_date (memberships (snd (createOrRenewMembership new_york_env (JStr ''101'')
      (JStr ''7'') (testData_member demo_env) (JStr ''monthly'') []))) = [(2025, 4, 8)] \<and>
   day_after (2025, 3, 8) = (2025, 3, 9) \<and>
   plus_duration (2025, 3, 9)
     (snd (membershipType (testData_member demo_env) (JStr ''monthly''))) = (2025, 4, 9)"
proof -
  let ?t = "testData_member demo_env"
  let ?e = "\<lparr>year = 2025, month = 2, day = 8, millis = 0\<rparr>"
  have ty: "membershipType ?t (JStr ''monthly'') = (10, Months 1)"
    by (simp add: membershipType_def testData_member_def)
  have env: "zone new_york_env = new_york"
    "clock new_york_env n = \<lparr>year = 2025, month = 2, day = 1, millis = 43200000\<rparr>" for n
    by (simp_all add: new_york_env_def)
  have look: "crm new_york_env [] \<lparr>entity = ''Membership'', action = ''get'',
      params = GetMembership (JStr ''101'') (fst (membershipType ?t (JStr ''monthly'')))\<rparr> =
      Inr (found_membership (Some ?e))"
    by (simp add: new_york_env_def renewing_env_def renewing_crm_def)
  have ahead: "date_gt (Some ?e) \<lparr>year = 2025, month = 2, day = 1, millis = 43200000\<rparr>"
    by (simp add: date_gt_def later_def)
  have w: "renewal_window new_york \<lparr>year = 2025, month = 2, day = 1, millis = 43200000\<rparr> sd ed
       (Some ?e) (Months 1) =
     (\<lparr>year = 2025, month = 2, day = 9, millis = 0\<rparr>,
      \<lparr>year = 2025, month = 3, day = 8, millis = 82800000\<rparr>)" for sd ed
    using ahead by (simp add: renewal_window_def Let_def new_york_start new_york_end)
  obtain m where m: "membershipData new_york_env (JStr ''101'') (JStr ''7'') ?t (JStr ''monthly'')
       (found_membership (Some ?e)) = Inr m"
      "start_date m = (2025, 3, 9)" "end_date m = (2025, 4, 8)"
    by (simp add: membershipData_def Let_def found_membership_def count_positive_def ty env w
        iso_day_def)
  from renew_guarded_payload[OF look m(1)] m(2,3) have
    "map start_date (memberships (snd (createOrRenewMembership new_york_env (JStr ''101'')
      (JStr ''7'') ?t (JStr ''monthly'') []))) = [(2025, 3, 9)]"
    "map end_date (memberships (snd (createOrRenewMembership new_york_env (JStr ''101'')
      (JStr ''7'') ?t (JStr ''monthly'') []))) = [(2025, 4, 8)]"
    by simp_all
  moreover have "day_after (2025, 3, 8) = (2025, 3, 9)"
    by (simp add: day_after_def days_in_month_def)
  moreover have "plus_duration (2025, 3, 9) (snd (membershipType ?t (JStr ''monthly''))) =
      (2025, 4, 9)"
    by (simp add: ty plus_duration_def run_over_def days_in_month_def)
  ultimately show ?thesis by blast
qed

section \<open>Failures of the write-back and of the membership upsert\<close>

lemma createOrRenewMembership_failure:
  "renew_guarded E c k t f tr = (Inl err, tr1) \<Longrightarrow>
     createOrRenewMembership E c k t f tr =
       (Inr JNull, tr1 @ [ErrorLog ''Failed to create/renew membership''])"
  by (simp add: createOrRenewMembership_def)

lemma renew_guarded_lookup_fails:
  "crm E tr \<lparr>entity = ''Membership'', action = ''get'',
       params = GetMembership c (fst (membershipType t f))\<rparr> = Inl err \<Longrightarrow>
   \<exists>tr1. renew_guarded E c k t f tr = (Inl err, tr1)"
  by (simp add: renew_guarded_def civiCRMApi_def)

lemma updateContactLocalArea_logs:
  "crm E tr \<lparr>entity = ''Contact'', action = ''create'', params = SetLocalArea c a\<rparr> = Inl err \<Longrightarrow>
   updateContactLocalArea E c a tr =
     (Inr (), tr @ [CrmCall \<lparr>entity = ''Contact'', action = ''create'', params = SetLocalArea c a\<rparr>,
        ErrorLog ''CiviCRM API Error'', ErrorLog ''Failed to update contact Local Area''])"
  by (simp add: updateContactLocalArea_def civiCRMApi_def)

lemma member_result:
  "fst (createContribution_member E ci t tr) = fst (createContribution_campaign E ci t tr)"
  using resolve_frequency_returns createOrRenewMembership_returns
  unfolding createContribution_member_def
  apply (auto split: prod.splits sum.splits)
  apply (metis fst_conv sum.distinct(1))+
  done

lemma civiCRMApi_result:
  "fst (civiCRMApi E ent act p tr) = crm E tr \<lparr>entity = ent, action = act, params = p\<rparr>"
  by (simp add: civiCRMApi_def Let_def split: sum.splits)

lemma campaign_result:
  "fst (createContribution_campaign E ci t tr) =
     crm E (snd (financialTypeId_campaign E ci t tr))
       \<lparr>entity = ''Contribution'', action = ''create'',
        params = NewContribution (contributionData E (info_id ci)
           (projr (fst (financialTypeId_campaign E ci t tr))) t)\<rparr>"
  using financialTypeId_campaign_returns[of E ci t tr]
  by (auto simp: createContribution_campaign_def civiCRMApi_result split: prod.splits sum.splits)

text \<open>
  C6.  The write-back \<open>updateContactLocalArea\<close> and the upsert \<open>createOrRenewMembership\<close>
  never throw, whatever CiviCRM answers.  A failed write-back leaves the two log lines of
  the client and of the catch block behind; any failure in the guarded part of the upsert
  (the lookup, the read of the first row, the create call) is logged and turned into the
  result \<open>null\<close>.  The contribution flow around them is not affected: the third variant's
  \<open>createContribution\<close> returns what the fourth's returns, and that is the outcome of the
  contribution-create call, which is issued whether or not the write-back failed.
\<close>

theorem enhancements_are_isolated:
  "fst (updateContactLocalArea E a area tr) = Inr () \<and>
   (crm E tr \<lparr>entity = ''Contact'', action = ''create'', params = SetLocalArea a area\<rparr> = Inl err
      \<longrightarrow> updateContactLocalArea E a area tr =
        (Inr (), tr @ [CrmCall \<lparr>entity = ''Contact'', action = ''create'',
                         params = SetLocalArea a area\<rparr>,
           ErrorLog ''CiviCRM API Error'', ErrorLog ''Failed to update contact Local Area''])) \<and>
   (\<exists>i. fst (createOrRenewMembership E c k t f tr) = Inr i) \<and>
   (renew_guarded E c k t f tr = (Inl err, tr1) \<longrightarrow>
      createOrRenewMembership E c k t f tr =
        (Inr JNull, tr1 @ [ErrorLog ''Failed to create/renew membership''])) \<and>
   (crm E tr \<lparr>entity = ''Membership'', action = ''get'',
        params = GetMembership c (fst (membershipType t f))\<rparr> = Inl err \<longrightarrow>
      fst (createOrRenewMembership E c k t f tr) = Inr JNull) \<and>
   fst (createContribution_member E ci t tr) = fst (createContribution_campaign E ci t tr) \<and>
   fst (createContribution_campaign E ci t tr) =
     crm E (snd (financialTypeId_campaign E ci t tr))
       \<lparr>entity = ''Contribution'', action = ''create'',
        params = NewContribution (contributionData E (info_id ci)
           (projr (fst (financialTypeId_campaign E ci t tr))) t)\<rparr>"
proof -
  have logs: "crm E tr \<lparr>entity = ''Contact'', action = ''create'', params = SetLocalArea a area\<rparr> = Inl err
      \<longrightarrow> updateContactLocalArea E a area tr =
        (Inr (), tr @ [CrmCall \<lparr>entity = ''Contact'', action = ''create'',
                         params = SetLocalArea a area\<rparr>,
           ErrorLog ''CiviCRM API Error'', ErrorLog ''Failed to update contact Local Area''])"
    using updateContactLocalArea_logs[of E tr a area err] by (rule impI)
  have null: "renew_guarded E c k t f tr = (Inl err, tr1) \<longrightarrow>
      createOrRenewMembership E c k t f tr =
        (Inr JNull, tr1 @ [ErrorLog ''Failed to create/renew membership''])"
    using createOrRenewMembership_failure[of E c k t f tr err tr1] by (rule impI)
  have lookup: "crm E tr \<lparr>entity = ''Membership'', action = ''get'',
        params = GetMembership c (fst (membershipType t f))\<rparr> = Inl err \<longrightarrow>
      fst (createOrRenewMembership E c k t f tr) = Inr JNull"
  proof
    assume "crm E tr \<lparr>entity = ''Membership'', action = ''get'',
        params = GetMembership c (fst (membershipType t f))\<rparr> = Inl err"
    from renew_guarded_lookup_fails[OF this, of k] obtain tr' where
      "renew_guarded E c k t f tr = (Inl err, tr')" by blast
    then show "fst (createOrRenewMembership E c k t f tr) = Inr JNull"
      by (simp add: createOrRenewMembership_failure)
  qed
  show ?thesis
    using updateContactLocalArea_returns[of E a area tr] logs
      createOrRenewMembership_returns[of E c k t f tr] null lookup
      member_result[of E ci t tr] campaign_result[of E ci t tr]
    by - (intro conjI; assumption)
qed

text \<open>
  Against a CiviCRM that fails every contact update and every membership call, the
  write-back returns, the upsert returns \<open>null\<close>, and the contribution is booked.
\<close>

theorem enhancements_are_isolated_witness:
  "fst (updateContactLocalArea failing_env (JStr ''101'') (JStr ''Colorado'') []) = Inr () \<and>
   fst (createOrRenewMembership failing_env (JStr ''101'') (JStr ''101'')
          (testData_member demo_env) JNull []) = Inr JNull \<and>
   fst (createContribution_member failing_env \<lparr>info_id = JStr ''101'', localArea = JNull\<rparr>
          (testData_member demo_env) []) = Inr created_answer"
  using enhancements_are_isolated[of failing_env "JStr ''101''" "JStr ''Colorado''" "[]"
      "HttpError ''Request failed with status code 500''" "JStr ''101''" "JStr ''101''"
      "testData_member demo_env" JNull _ "\<lparr>info_id = JStr ''101'', localArea = JNull\<rparr>"]
  by (simp add: failing_env_def failing_crm_def)

section \<open>Local area: precedence and write-back\<close>

lemma campaign_policy_calls:
  assumes "campaignMapping t = Own use_custom_field"
  shows "calls (snd (createContribution_campaign E ci t tr)) =
     calls tr @
     (if shouldUpdateContact ci t
      then [\<lparr>entity = ''Contact'', action = ''create'',
              params = SetLocalArea (info_id ci) (transaction_local_area t)\<rparr>]
      else []) @
     [\<lparr>entity = ''Contribution'', action = ''create'',
       params = NewContribution (contributionData E (info_id ci)
         (if truthy (transaction_local_area t) then mapped_type (transaction_local_area t)
          else if truthy (localArea ci) then mapped_type (localArea ci)
          else TypeId 49) t)\<rparr>]"
proof -
  have v: "shouldUpdateContact ci t \<Longrightarrow> localAreaValue ci t = transaction_local_area t"
    "shouldUpdateContact ci t \<Longrightarrow> truthy (transaction_local_area t)"
    by (auto simp: shouldUpdateContact_def localAreaValue_def)
  have ft: "(if truthy (localAreaValue ci t) then mapped_type (localAreaValue ci t) else TypeId 49) =
      (if truthy (transaction_local_area t) then mapped_type (transaction_local_area t)
          else if truthy (localArea ci) then mapped_type (localArea ci)
          else TypeId 49)"
    by (auto simp: localAreaValue_def)
  show ?thesis
  proof (cases "shouldUpdateContact ci t")
    case True
    obtain r tr1 where u: "updateContactLocalArea E (info_id ci) (transaction_local_area t) tr = (r, tr1)"
      by (cases "updateContactLocalArea E (info_id ci) (transaction_local_area t) tr")
    have r: "r = Inr ()" using updateContactLocalArea_returns[of E "info_id ci" "transaction_local_area t" tr] u by simp
    have c1: "calls tr1 = calls tr @ [\<lparr>entity = ''Contact'', action = ''create'',
              params = SetLocalArea (info_id ci) (transaction_local_area t)\<rparr>]"
      using calls_updateContactLocalArea[of E "info_id ci" "transaction_local_area t" tr] u by simp
    have "financialTypeId_campaign E ci t tr =
       (Inr (if truthy (transaction_local_area t) then mapped_type (transaction_local_area t)
          else if truthy (localArea ci) then mapped_type (localArea ci)
          else TypeId 49), tr1)"
      using assms True v u r ft by (simp add: financialTypeId_campaign_def)
    then show ?thesis
      using True c1 by (simp add: createContribution_campaign_def calls_civiCRMApi)
  next
    case False
    have "financialTypeId_campaign E ci t tr =
       (Inr (if truthy (transaction_local_area t) then mapped_type (transaction_local_area t)
          else if truthy (localArea ci) then mapped_type (localArea ci)
          else TypeId 49), tr)"
      using assms False ft by (simp add: financialTypeId_campaign_def)
    then show ?thesis
      using False by (simp add: createContribution_campaign_def calls_civiCRMApi)
  qed
qed

lemma member_extends_campaign:
  "\<exists>rest. calls (snd (createContribution_member E ci t tr)) =
     calls (snd (createContribution_campaign E ci t tr)) @ rest \<and>
     (\<forall>c \<in> set rest. entity c = ''Membership'')"
proof (cases "createContribution_campaign E ci t tr")
  case (Pair r tr1)
  show ?thesis
  proof (cases r)
    case (Inl e)
    with Pair show ?thesis by (simp add: createContribution_member_def)
  next
    case (Inr result)
    show ?thesis
    proof (cases "campaign_id t = JStr ''195519''")
      case False
      with Pair Inr show ?thesis by (simp add: createContribution_member_def)
    next
      case True
      obtain fr tr2 where f: "resolve_frequency E t tr1 = (Inr fr, tr2)"
        using resolve_frequency_returns[of E t tr1] by (cases "resolve_frequency E t tr1") auto
      have c2: "calls tr2 = calls tr1" using calls_resolve_frequency[of E t tr1] f by simp
      obtain g tr3 where g: "renew_guarded E (info_id ci) (extract_id result) t fr tr2 = (g, tr3)"
        by (cases "renew_guarded E (info_id ci) (extract_id result) t fr tr2")
      have "\<exists>rest. calls tr3 = calls tr2 @ rest \<and> (\<forall>c \<in> set rest. entity c = ''Membership'')"
        using g unfolding renew_guarded_def
        by (auto split: prod.splits sum.splits dest!: civiCRMApi_calls)
      then obtain rest where rest: "calls tr3 = calls tr1 @ rest" "\<forall>c \<in> set rest. entity c = ''Membership''"
        using c2 by auto
      have "calls (snd (createContribution_member E ci t tr)) = calls tr3"
        using Pair Inr True f g
        by (auto simp: createContribution_member_def createOrRenewMembership_def split: sum.splits)
      with rest Pair show ?thesis by auto
    qed
  qed
qed

lemma campaignMapping_custom_field:
  "campaignMapping t = Own use_custom_field \<longleftrightarrow> js_string (campaign_id t) = ''195519''"
  by (simp add: campaignMapping_def js_get_def campaignFinancialTypeMapping_def)

lemma mapped_type_examples:
  "mapped_type (JStr ''Colorado'') = TypeId 20"
  "mapped_type (JStr ''Chicago'') = TypeId 19"
  by (simp_all add: mapped_type_def js_get_def localAreaMapping_def)

lemma testData_campaign_area:
  "transaction_local_area (testData_campaign E) = JStr ''Colorado''"
  "js_string (campaign_id (testData_campaign E)) = ''195519''"
  by (simp_all add: transaction_local_area_def localAreaField_def testData_campaign_def
      testData_field_def colorado_field_def is_local_area_def)

text \<open>
  Only the first field that matches is looked at: an empty first match hides a filled
  second one.
\<close>

lemma first_match_only:
  "transaction_local_area
     (t\<lparr>custom_fields := Some
        [\<lparr>field_id = JNum 64260, title = JStr ''Local Area'', field_value = JStr []\<rparr>,
         colorado_field]\<rparr>) = JNull"
  by (simp add: transaction_local_area_def localAreaField_def is_local_area_def)

text \<open>
  C2 (amended).  For campaign 195519, the campaign of the custom-field policy, let the
  transaction's value be the value of the first custom field titled "Local Area" or with
  field id 64260, if that value is non-empty.  The category of the contribution payload
  is the table entry of the transaction's value when there is one, and only otherwise
  that of the value stored on the contact (49 when there is neither).  When the
  transaction's value is there and the contact has no stored value or a different one,
  the call that writes the value onto the contact is issued, and it is issued immediately
  before the contribution-create call; in every other case the contribution-create call
  is the only call.  The third variant issues the same calls, followed by its membership
  calls.
\<close>

theorem local_area_precedence:
  assumes "js_string (campaign_id t) = ''195519''"
  shows "calls (snd (createContribution_campaign E ci t tr)) =
     calls tr @
     (if truthy (transaction_local_area t) \<and>
         (\<not> truthy (localArea ci) \<or> localArea ci \<noteq> transaction_local_area t)
      then [\<lparr>entity = ''Contact'', action = ''create'',
              params = SetLocalArea (info_id ci) (transaction_local_area t)\<rparr>]
      else []) @
     [\<lparr>entity = ''Contribution'', action = ''create'',
       params = NewContribution (contributionData E (info_id ci)
         (if truthy (transaction_local_area t) then mapped_type (transaction_local_area t)
          else if truthy (localArea ci) then mapped_type (localArea ci)
          else TypeId 49) t)\<rparr>] \<and>
   (\<exists>rest. calls (snd (createContribution_member E ci t tr)) =
      calls (snd (createContribution_campaign E ci t tr)) @ rest \<and>
      (\<forall>c \<in> set rest. entity c = ''Membership''))"
proof -
  have "campaignMapping t = Own use_custom_field"
    using assms by (simp add: campaignMapping_custom_field)
  from campaign_policy_calls[OF this, of E ci tr] member_extends_campaign[of E ci t tr]
  show ?thesis by (simp add: shouldUpdateContact_def)
qed

text \<open>
  The fourth variant's test transaction (local area Colorado) for a contact that has
  Chicago stored: Colorado is written back, then the contribution is booked under 20.
  Without custom fields the stored Chicago decides (19) and nothing is written back.
\<close>

theorem local_area_precedence_witness:
  "calls (snd (createContribution_campaign demo_env chicago_contact (testData_campaign demo_env) [])) =
     [\<lparr>entity = ''Contact'', action = ''create'',
       params = SetLocalArea (JStr ''77'') (JStr ''Colorado'')\<rparr>,
      \<lparr>entity = ''Contribution'', action = ''create'',
       params = NewContribution
         (contributionData demo_env (JStr ''77'') (TypeId 20) (testData_campaign demo_env))\<rparr>] \<and>
   calls (snd (createContribution_campaign demo_env chicago_contact
       ((testData_campaign demo_env)\<lparr>custom_fields := None\<rparr>) [])) =
     [\<lparr>entity = ''Contribution'', action = ''create'',
       params = NewContribution
         (contributionData demo_env (JStr ''77'') (TypeId 19)
            ((testData_campaign demo_env)\<lparr>custom_fields := None\<rparr>))\<rparr>]"
proof -
  let ?t = "(testData_campaign demo_env)\<lparr>custom_fields := None\<rparr>"
  have none: "transaction_local_area ?t = JNull" "js_string (campaign_id ?t) = ''195519''"
    by (simp_all add: transaction_local_area_def localAreaField_def testData_campaign_def
        testData_field_def)
  have a: "calls (snd (createContribution_campaign demo_env chicago_contact (testData_campaign demo_env) [])) =
     [\<lparr>entity = ''Contact'', action = ''create'',
       params = SetLocalArea (JStr ''77'') (JStr ''Colorado'')\<rparr>,
      \<lparr>entity = ''Contribution'', action = ''create'',
       params = NewContribution
         (contributionData demo_env (JStr ''77'') (TypeId 20) (testData_campaign demo_env))\<rparr>]"
    using local_area_precedence[OF testData_campaign_area(2)[of demo_env], of demo_env chicago_contact "[]", THEN conjunct1]
    by (simp add: testData_campaign_area mapped_type_examples chicago_contact_def)
  have b: "calls (snd (createContribution_campaign demo_env chicago_contact ?t [])) =
     [\<lparr>entity = ''Contribution'', action = ''create'',
       params = NewContribution (contributionData demo_env (JStr ''77'') (TypeId 19) ?t)\<rparr>]"
    using local_area_precedence[OF none(2), of demo_env chicago_contact "[]", THEN conjunct1]
    by (simp add: none mapped_type_examples chicago_contact_def)
  from a b show ?thesis by (rule conjI)
qed

text \<open>
  The order the claim states does not hold: for a new contact and the test transaction,
  the write-back is the first call and the contribution-create call the second.
\<close>

theorem write_back_precedes_contribution:
  "calls (snd (createContribution_campaign demo_env new_contact (testData_campaign demo_env) [])) =
     [\<lparr>entity = ''Contact'', action = ''create'',
       params = SetLocalArea (JStr ''101'') (JStr ''Colorado'')\<rparr>,
      \<lparr>entity = ''Contribution'', action = ''create'',
       params = NewContribution
         (contributionData demo_env (JStr ''101'') (TypeId 20) (testData_campaign demo_env))\<rparr>]"
proof -
  have "campaignMapping (testData_campaign demo_env) = Own use_custom_field"
    by (simp add: campaignMapping_custom_field testData_campaign_area)
  from campaign_policy_calls[OF this, of demo_env new_contact "[]"] show ?thesis
    by (simp add: testData_campaign_area mapped_type_examples shouldUpdateContact_def
        new_contact_def)
qed

section \<open>Category from the local area label\<close>

lemma mapped_type_colorado: "mapped_type (JStr ''Colorado'') = TypeId 20"
  by (simp add: mapped_type_def js_get_def localAreaMapping_def)

lemma mapped_type_default:
  assumes "js_string label \<notin> fst ` set localAreaMapping"
    and "js_string label \<notin> set object_prototype"
  shows "mapped_type label = TypeId 49"
proof -
  have "map_of localAreaMapping (js_string label) = None"
    using assms(1) by (simp add: map_of_eq_None_iff)
  then show ?thesis using assms(2) by (simp add: mapped_type_def js_get_def)
qed

lemma mapped_type_inherited:
  assumes "k \<in> set object_prototype"
  shows "mapped_type (JStr k) = ProtoMember k"
proof -
  have "k \<notin> fst ` set localAreaMapping"
    using assms by (auto simp: object_prototype_def localAreaMapping_def)
  then have "map_of localAreaMapping k = None" by (simp add: map_of_eq_None_iff)
  then show ?thesis using assms by (simp add: mapped_type_def js_get_def)
qed

text \<open>
  The category for the label "Colorado", for an absent label, and for a label that names
  neither an entry of the table nor an inherited member.
\<close>

lemma category_field_variant:
  "transaction_local_area t = JStr ''Colorado'' \<Longrightarrow> financialTypeId_field t = TypeId 20"
  "\<not> truthy (transaction_local_area t) \<Longrightarrow> financialTypeId_field t = TypeId 49"
  "js_string (transaction_local_area t) \<notin> fst ` set localAreaMapping \<Longrightarrow>
   js_string (transaction_local_area t) \<notin> set object_prototype \<Longrightarrow>
     financialTypeId_field t = TypeId 49"
  using mapped_type_default[of "transaction_local_area t"]
  by (simp_all add: financialTypeId_field_def Let_def mapped_type_colorado)

lemma category_campaign_variant:
  assumes "js_string (campaign_id t) = ''195519''"
  shows "localAreaValue ci t = JStr ''Colorado'' \<Longrightarrow>
           fst (financialTypeId_campaign E ci t tr) = Inr (TypeId 20)"
    and "\<not> truthy (localAreaValue ci t) \<Longrightarrow>
           fst (financialTypeId_campaign E ci t tr) = Inr (TypeId 49)"
    and "js_string (localAreaValue ci t) \<notin> fst ` set localAreaMapping \<Longrightarrow>
         js_string (localAreaValue ci t) \<notin> set object_prototype \<Longrightarrow>
           fst (financialTypeId_campaign E ci t tr) = Inr (TypeId 49)"
proof -
  have p: "campaignMapping t = Own use_custom_field"
    using assms by (simp add: campaignMapping_custom_field)
  have r: "fst (financialTypeId_campaign E ci t tr) =
      Inr (if truthy (localAreaValue ci t) then mapped_type (localAreaValue ci t) else TypeId 49)"
    using p updateContactLocalArea_returns[of E "info_id ci" "localAreaValue ci t" tr]
    by (auto simp: financialTypeId_campaign_def split: prod.splits sum.splits)
  show "localAreaValue ci t = JStr ''Colorado'' \<Longrightarrow>
           fst (financialTypeId_campaign E ci t tr) = Inr (TypeId 20)"
    by (simp add: r mapped_type_colorado)
  show "\<not> truthy (localAreaValue ci t) \<Longrightarrow>
           fst (financialTypeId_campaign E ci t tr) = Inr (TypeId 49)"
    by (simp add: r)
  show "js_string (localAreaValue ci t) \<notin> fst ` set localAreaMapping \<Longrightarrow>
         js_string (localAreaValue ci t) \<notin> set object_prototype \<Longrightarrow>
           fst (financialTypeId_campaign E ci t tr) = Inr (TypeId 49)"
    using mapped_type_default[of "localAreaValue ci t"] by (simp add: r)
qed

lemma constructor_transaction_area:
  "transaction_local_area constructor_transaction = JStr ''constructor''"
  "js_string (campaign_id constructor_transaction) = ''195519''"
  by (simp_all add: transaction_local_area_def localAreaField_def constructor_transaction_def
      constructor_field_def testData_campaign_def testData_field_def is_local_area_def)

text \<open>
  C1.  The claim: a resolved label "Colorado" gives category 20, and an absent label or
  one that is no key of the table gives the default 49.  The lemmas above prove it for
  "Colorado", for an absent label, and for every label that is neither a key of the table
  nor the name of a member inherited from \<open>Object.prototype\<close>.  For an inherited name the
  code does not fall back: with the local area "constructor", which is no key of the
  table, the second and the fourth variant put the inherited member into the payload
  instead of 49.
\<close>

theorem category_of_inherited_name:
  "''constructor'' \<notin> fst ` set localAreaMapping \<and>
   map financial_type_id
     (contributions (snd (createContribution_field demo_env (JStr ''101'')
        constructor_transaction []))) = [ProtoMember ''constructor''] \<and>
   map financial_type_id
     (contributions (snd (createContribution_campaign demo_env new_contact
        constructor_transaction []))) = [ProtoMember ''constructor'']"
proof -
  have k: "''constructor'' \<in> set object_prototype" by (simp add: object_prototype_def)
  have a: "''constructor'' \<notin> fst ` set localAreaMapping"
    by (simp add: localAreaMapping_def)
  have b: "map financial_type_id
     (contributions (snd (createContribution_field demo_env (JStr ''101'')
        constructor_transaction []))) = [ProtoMember ''constructor'']"
    by (simp add: contributions_field contributionData_def financialTypeId_field_def
        constructor_transaction_area mapped_type_inherited[OF k])
  have p: "campaignMapping constructor_transaction = Own use_custom_field"
    by (simp add: campaignMapping_custom_field constructor_transaction_area)
  have "calls (snd (createContribution_campaign demo_env new_contact constructor_transaction [])) =
     [\<lparr>entity = ''Contact'', action = ''create'',
       params = SetLocalArea (JStr ''101'') (JStr ''constructor'')\<rparr>,
      \<lparr>entity = ''Contribution'', action = ''create'',
       params = NewContribution (contributionData demo_env (JStr ''101'')
         (ProtoMember ''constructor'') constructor_transaction)\<rparr>]"
    using campaign_policy_calls[OF p, of demo_env new_contact "[]"]
    by (simp add: constructor_transaction_area mapped_type_inherited[OF k]
        shouldUpdateContact_def new_contact_def)
  then have c: "map financial_type_id
     (contributions (snd (createContribution_campaign demo_env new_contact
        constructor_transaction []))) = [ProtoMember ''constructor'']"
    by (simp add: contributions_def contributionData_def)
  from a b c show ?thesis by blast
qed

section \<open>Contact resolution: find or create\<close>

lemma contact_creates_append [simp]:
  "contact_creates (tr @ tr') = contact_creates tr @ contact_creates tr'"
  by (simp add: contact_creates_def)

lemma contact_creates_simps [simp]:
  "contact_creates [] = []"
  "contact_creates (CrmCall (lookup_call d ret) # tr) = contact_creates tr"
  "contact_creates (CrmCall (create_call d) # tr) = create_call d # contact_creates tr"
  "contact_creates (ErrorLog s # tr) = contact_creates tr"
  by (simp_all add: contact_creates_def lookup_call_def create_call_def)

lemma civiCRMApi_unfold:
  "civiCRMApi E ent act p tr =
     (case crm E tr \<lparr>entity = ent, action = act, params = p\<rparr> of
        Inl err \<Rightarrow> (Inl err, tr @ [CrmCall \<lparr>entity = ent, action = act, params = p\<rparr>,
                          ErrorLog ''CiviCRM API Error''])
      | Inr r \<Rightarrow> (Inr r, tr @ [CrmCall \<lparr>entity = ent, action = act, params = p\<rparr>]))"
  by (simp add: civiCRMApi_def Let_def)

lemma base_creates:
  "contact_creates (snd (findOrCreateContact_base E d tr)) =
     contact_creates tr @
     (case crm E tr (lookup_call d None) of
        Inl err \<Rightarrow> []
      | Inr sr \<Rightarrow> if count_positive sr then [] else [create_call d])"
  unfolding findOrCreateContact_base_def civiCRMApi_unfold
  by (auto simp: lookup_call_def[symmetric] create_call_def[symmetric]
      split: sum.splits option.splits)

lemma base_match:
  "crm E tr (lookup_call d None) = Inr sr \<Longrightarrow> count_positive sr \<Longrightarrow>
   resp_values sr = Some v \<Longrightarrow> elem0 v = Some r \<Longrightarrow>
     fst (findOrCreateContact_base E d tr) = Inr (row_id r)"
  unfolding findOrCreateContact_base_def civiCRMApi_unfold
  by (simp add: lookup_call_def[symmetric])

lemma base_create:
  "crm E tr (lookup_call d None) = Inr sr \<Longrightarrow> \<not> count_positive sr \<Longrightarrow>
   crm E (tr @ [CrmCall (lookup_call d None)]) (create_call d) = Inr cr \<Longrightarrow>
     fst (findOrCreateContact_base E d tr) = Inr (resp_id cr)"
  unfolding findOrCreateContact_base_def civiCRMApi_unfold
  by (simp add: lookup_call_def[symmetric] create_call_def[symmetric])

lemma field_creates:
  "contact_creates (snd (findOrCreateContact_field E d tr)) =
     contact_creates tr @
     (case crm E tr (lookup_call d None) of
        Inl err \<Rightarrow> []
      | Inr sr \<Rightarrow> if found sr = None then [create_call d] else [])"
  unfolding findOrCreateContact_field_def civiCRMApi_unfold
  by (auto simp: lookup_call_def[symmetric] create_call_def[symmetric]
      split: sum.splits option.splits)

lemma field_match:
  "crm E tr (lookup_call d None) = Inr sr \<Longrightarrow> found sr = Some r \<Longrightarrow>
     fst (findOrCreateContact_field E d tr) = Inr (js_or (row_id r) (row_contact_id r))"
  unfolding findOrCreateContact_field_def civiCRMApi_unfold
  by (simp add: lookup_call_def[symmetric])

lemma field_create:
  "crm E tr (lookup_call d None) = Inr sr \<Longrightarrow> found sr = None \<Longrightarrow>
   crm E (tr @ [CrmCall (lookup_call d None)]) (create_call d) = Inr cr \<Longrightarrow>
     fst (findOrCreateContact_field E d tr) = Inr (extract_id cr)"
  unfolding findOrCreateContact_field_def civiCRMApi_unfold
  by (simp add: lookup_call_def[symmetric] create_call_def[symmetric])

lemma later_creates:
  "contact_creates (snd (findOrCreateContact E d tr)) =
     contact_creates tr @
     (case crm E tr (lookup_call d (Some ''id,display_name,custom_820'')) of
        Inl err \<Rightarrow> []
      | Inr sr \<Rightarrow> if found sr = None then [create_call d] else [])"
  unfolding findOrCreateContact_def civiCRMApi_unfold
  by (auto simp: lookup_call_def[symmetric] create_call_def[symmetric]
      split: sum.splits option.splits)

lemma later_match:
  "crm E tr (lookup_call d (Some ''id,display_name,custom_820'')) = Inr sr \<Longrightarrow>
   found sr = Some r \<Longrightarrow>
     fst (findOrCreateContact E d tr) =
       Inr \<lparr>info_id = js_or (row_id r) (row_contact_id r),
            localArea = js_or (custom_820 r) JNull\<rparr>"
  unfolding findOrCreateContact_def civiCRMApi_unfold
  by (simp add: lookup_call_def[symmetric])

lemma later_create:
  "crm E tr (lookup_call d (Some ''id,display_name,custom_820'')) = Inr sr \<Longrightarrow>
   found sr = None \<Longrightarrow>
   crm E (tr @ [CrmCall (lookup_call d (Some ''id,display_name,custom_820''))])
     (create_call d) = Inr cr \<Longrightarrow>
     fst (findOrCreateContact E d tr) = Inr \<lparr>info_id = extract_id cr, localArea = JNull\<rparr>"
  unfolding findOrCreateContact_def civiCRMApi_unfold
  by (simp add: lookup_call_def[symmetric] create_call_def[symmetric])

text \<open>
  C5.  In every variant the contact-create calls that resolution issues are: none when
  the email lookup fails or reports a match, and exactly one, with the donor's fields,
  when it reports none.  On a match the result is the id of the first row found; without
  one it is the id the create answer carries.  The baseline takes a positive count for a
  match and reads \<open>id\<close> of the row and of the create answer; the later variants also ask
  for a non-empty array of rows, read \<open>id || contact_id\<close> of the row, and extract the
  created id from the shapes an answer can have.
\<close>

theorem create_iff_no_match:
  "contact_creates (snd (findOrCreateContact_base E d tr)) =
     contact_creates tr @
     (case crm E tr (lookup_call d None) of
        Inl err \<Rightarrow> []
      | Inr sr \<Rightarrow> if count_positive sr then [] else [create_call d]) \<and>
   (crm E tr (lookup_call d None) = Inr sr \<and> count_positive sr \<and>
    resp_values sr = Some v \<and> elem0 v = Some r \<longrightarrow>
      fst (findOrCreateContact_base E d tr) = Inr (row_id r)) \<and>
   (crm E tr (lookup_call d None) = Inr sr \<and> \<not> count_positive sr \<and>
    crm E (tr @ [CrmCall (lookup_call d None)]) (create_call d) = Inr cr \<longrightarrow>
      fst (findOrCreateContact_base E d tr) = Inr (resp_id cr)) \<and>
   contact_creates (snd (findOrCreateContact_field E d tr)) =
     contact_creates tr @
     (case crm E tr (lookup_call d None) of
        Inl err \<Rightarrow> []
      | Inr sr \<Rightarrow> if found sr = None then [create_call d] else []) \<and>
   (crm E tr (lookup_call d None) = Inr sr \<and> found sr = Some r \<longrightarrow>
      fst (findOrCreateContact_field E d tr) = Inr (js_or (row_id r) (row_contact_id r))) \<and>
   (crm E tr (lookup_call d None) = Inr sr \<and> found sr = None \<and>
    crm E (tr @ [CrmCall (lookup_call d None)]) (create_call d) = Inr cr \<longrightarrow>
      fst (findOrCreateContact_field E d tr) = Inr (extract_id cr)) \<and>
   contact_creates (snd (findOrCreateContact E d tr)) =
     contact_creates tr @
     (case crm E tr (lookup_call d (Some ''id,display_name,custom_820'')) of
        Inl err \<Rightarrow> []
      | Inr sr \<Rightarrow> if found sr = None then [create_call d] else []) \<and>
   (crm E tr (lookup_call d (Some ''id,display_name,custom_820'')) = Inr sr \<and>
    found sr = Some r \<longrightarrow>
      fst (findOrCreateContact E d tr) =
        Inr \<lparr>info_id = js_or (row_id r) (row_contact_id r),
             localArea = js_or (custom_820 r) JNull\<rparr>) \<and>
   (crm E tr (lookup_call d (Some ''id,display_name,custom_820'')) = Inr sr \<and>
    found sr = None \<and>
    crm E (tr @ [CrmCall (lookup_call d (Some ''id,display_name,custom_820''))])
      (create_call d) = Inr cr \<longrightarrow>
      fst (findOrCreateContact E d tr) = Inr \<lparr>info_id = extract_id cr, localArea = JNull\<rparr>)"
  using base_creates[of E d tr] base_match[of E tr d sr v r] base_create[of E tr d sr cr]
    field_creates[of E d tr] field_match[of E tr d sr r] field_create[of E tr d sr cr]
    later_creates[of E d tr] later_match[of E tr d sr r] later_create[of E tr d sr cr]
  by (intro conjI impI; (elim conjE)?; assumption?; simp)

text \<open>
  An unknown email leads to one create call and the id 101 of its answer; a known one to
  no create call and the id 77 of the contact found.
\<close>

theorem create_iff_no_match_witness:
  "contact_creates (snd (findOrCreateContact_base demo_env (test_donor ''new@example.com'') [])) =
     [create_call (test_donor ''new@example.com'')] \<and>
   fst (findOrCreateContact_base demo_env (test_donor ''new@example.com'') []) =
     Inr (JStr ''101'') \<and>
   contact_creates (snd (findOrCreateContact_base known_env (test_donor ''old@example.com'') [])) =
     [] \<and>
   fst (findOrCreateContact_base known_env (test_donor ''old@example.com'') []) =
     Inr (JStr ''77'') \<and>
   contact_creates (snd (findOrCreateContact_field demo_env (test_donor ''new@example.com'') [])) =
     [create_call (test_donor ''new@example.com'')] \<and>
   fst (findOrCreateContact_field demo_env (test_donor ''new@example.com'') []) =
     Inr (JStr ''101'') \<and>
   contact_creates (snd (findOrCreateContact_field known_env (test_donor ''old@example.com'') [])) =
     [] \<and>
   fst (findOrCreateContact_field known_env (test_donor ''old@example.com'') []) =
     Inr (JStr ''77'')"
proof -
  let ?n = "test_donor ''new@example.com''" and ?o = "test_donor ''old@example.com''"
  let ?row = "\<lparr>row_id = JStr ''77'', row_contact_id = JStr ''77'',
        custom_820 = JStr ''Chicago'', row_end_date = None\<rparr>"
  have n: "crm demo_env tr (lookup_call d ret) = Inr empty_answer"
     "crm demo_env tr (create_call d) = Inr created_answer" for tr d ret
    by (simp_all add: demo_env_def fresh_crm_def lookup_call_def create_call_def)
  have o: "crm known_env tr (lookup_call d ret) = Inr known_contact" for tr d ret
    by (simp add: known_env_def known_crm_def lookup_call_def)
  have e: "\<not> count_positive empty_answer" "found empty_answer = None"
    "resp_id created_answer = JStr ''101''" "extract_id created_answer = JStr ''101''"
    by (simp_all add: count_positive_def found_def empty_answer_def created_answer_def
        extract_id_def js_or_def)
  have k: "count_positive known_contact" "resp_values known_contact = Some (Rows [?row])"
    "elem0 (Rows [?row]) = Some ?row" "found known_contact = Some ?row"
    by (simp_all add: count_positive_def found_def known_contact_def)
  show ?thesis
    using create_iff_no_match[of demo_env ?n "[]" empty_answer _ _ created_answer]
      create_iff_no_match[of known_env ?o "[]" known_contact "Rows [?row]" ?row]
    by (simp add: n o e k js_or_def)
qed

section \<open>Signature verification\<close>

text \<open>
  C7 (amended).  If the signature header is absent or empty, the request goes to the
  handler.  If the header is non-empty, a shared secret is configured, and the header
  differs from the hex HMAC-SHA256 of the serialized body under that secret, the answer
  is status 401, one line is logged, and nothing else happens: no handler, no call.  If
  the header equals that HMAC, the request goes to the handler.
\<close>

theorem signature_gate:
  "(signature req = None \<or> signature req = Some [] \<longrightarrow>
      webhook chain E req tr = handle_webhook chain req tr) \<and>
   (signature req = Some s \<and> s \<noteq> [] \<and> GIVEBUTTER_WEBHOOK_SECRET E = Some k \<and>
    s \<noteq> hmac_sha256_hex E k (body_text req) \<longrightarrow>
      webhook chain E req tr =
        (\<lparr>status = 401, body = StatusOnly\<rparr>, tr @ [ErrorLog ''Invalid webhook signature''])) \<and>
   (signature req = Some s \<and> GIVEBUTTER_WEBHOOK_SECRET E = Some k \<and>
    s = hmac_sha256_hex E k (body_text req) \<longrightarrow>
      webhook chain E req tr = handle_webhook chain req tr)"
  by (auto simp: webhook_def verifyGivebutterSignature_def)

text \<open>
  An unsigned request, one with a wrong signature and one with the right signature, for
  an event the handler does not process.
\<close>

theorem signature_gate_witness:
  "webhook_base demo_env (ping_request None) [] = (\<lparr>status = 200, body = StatusOnly\<rparr>, []) \<and>
   webhook_base demo_env (ping_request (Some ''0badc0de'')) [] =
     (\<lparr>status = 401, body = StatusOnly\<rparr>, [ErrorLog ''Invalid webhook signature'']) \<and>
   webhook_base demo_env (ping_request (Some ''5f2awhsec'')) [] =
     (\<lparr>status = 200, body = StatusOnly\<rparr>, [])"
  using signature_gate[of "ping_request None" "chain_base demo_env" demo_env "[]"]
    signature_gate[of "ping_request (Some ''0badc0de'')" "chain_base demo_env" demo_env "[]"
      "''0badc0de''" "''whsec''"]
    signature_gate[of "ping_request (Some ''5f2awhsec'')" "chain_base demo_env" demo_env "[]"
      "''5f2awhsec''" "''whsec''"]
  by (simp add: webhook_base_def ping_request_def demo_env_def handle_webhook_def)

text \<open>
  A header that is present but empty differs from the HMAC and is not answered with 401:
  the donation is processed, with four CiviCRM calls and a success answer.
\<close>

theorem empty_signature_is_processed:
  "signature ((donation_request demo_env)\<lparr>signature := Some []\<rparr>) = Some [] \<and>
   GIVEBUTTER_WEBHOOK_SECRET demo_env = Some ''whsec'' \<and>
   hmac_sha256_hex demo_env ''whsec''
     (body_text ((donation_request demo_env)\<lparr>signature := Some []\<rparr>)) =
     ''5f2awhsec'' \<and>
   fst (webhook_campaign demo_env ((donation_request demo_env)\<lparr>signature := Some []\<rparr>) []) =
     \<lparr>status = 200, body = Succeeded (JStr ''101'') (JStr ''101'')\<rparr> \<and>
   map entity (calls (snd (webhook_campaign demo_env
      ((donation_request demo_env)\<lparr>signature := Some []\<rparr>) []))) =
     [''Contact'', ''Contact'', ''Contact'', ''Contribution'']"
proof -
  let ?req = "(donation_request demo_env)\<lparr>signature := Some []\<rparr>"
  have v: "verifyGivebutterSignature demo_env ?req = Next"
    by (simp add: verifyGivebutterSignature_def donation_request_def)
  let ?d = "donor_of (testData_campaign demo_env)"
  have crm: "crm demo_env tr (lookup_call d ret) = Inr empty_answer"
     "crm demo_env tr (create_call d) = Inr created_answer" for tr d ret
    by (simp_all add: demo_env_def fresh_crm_def lookup_call_def create_call_def)
  have f: "findOrCreateContact demo_env ?d [] =
     (Inr new_contact, [CrmCall (lookup_call ?d (Some ''id,display_name,custom_820'')),
        CrmCall (create_call ?d)])"
    unfolding findOrCreateContact_def civiCRMApi_unfold
    by (simp add: lookup_call_def[symmetric] create_call_def[symmetric] crm found_def
        count_positive_def empty_answer_def extract_id_def created_answer_def js_or_def
        new_contact_def)
  have p: "campaignMapping (testData_campaign demo_env) = Own use_custom_field"
    by (simp add: campaignMapping_custom_field testData_campaign_area)
  obtain r tr2 where c: "createContribution_campaign demo_env new_contact (testData_campaign demo_env)
      [CrmCall (lookup_call ?d (Some ''id,display_name,custom_820'')), CrmCall (create_call ?d)] = (r, tr2)"
    by (cases "createContribution_campaign demo_env new_contact (testData_campaign demo_env)
      [CrmCall (lookup_call ?d (Some ''id,display_name,custom_820'')), CrmCall (create_call ?d)]")
  have r: "r = Inr created_answer"
    using campaign_result[of demo_env new_contact "testData_campaign demo_env"
      "[CrmCall (lookup_call ?d (Some ''id,display_name,custom_820'')), CrmCall (create_call ?d)]"] c
    by (simp add: demo_env_def fresh_crm_def)
  have tr2: "map entity (calls tr2) = [''Contact'', ''Contact'', ''Contact'', ''Contribution'']"
    using campaign_policy_calls[OF p, of demo_env new_contact
      "[CrmCall (lookup_call ?d (Some ''id,display_name,custom_820'')), CrmCall (create_call ?d)]"] c
    by (simp add: testData_campaign_area shouldUpdateContact_def new_contact_def
        lookup_call_def create_call_def)
  have w: "webhook_campaign demo_env ?req [] =
      (\<lparr>status = 200, body = Succeeded (JStr ''101'') (JStr ''101'')\<rparr>, tr2)"
    using v f c r
    by (simp add: webhook_campaign_def webhook_def handle_webhook_def chain_campaign_def
        donation_request_def new_contact_def created_answer_def)
  show ?thesis
    using w tr2 by (simp add: donation_request_def demo_env_def)
qed

text \<open>
  Without a configured secret a non-empty header makes the verifier throw; the framework
  answers the request with status 500.
\<close>

lemma unconfigured_secret:
  "signature req = Some s \<Longrightarrow> s \<noteq> [] \<Longrightarrow> GIVEBUTTER_WEBHOOK_SECRET E = None \<Longrightarrow>
     webhook chain E req tr = (\<lparr>status = 500, body = StatusOnly\<rparr>, tr)"
  by (simp add: webhook_def verifyGivebutterSignature_def)

section \<open>Answers of the endpoints\<close>

lemma chain_base_lookup_fails:
  "crm E tr (lookup_call d None) = Inl err \<Longrightarrow> fst (chain_base E d t tr) = Inl err"
  unfolding chain_base_def findOrCreateContact_base_def civiCRMApi_unfold
  by (simp add: lookup_call_def[symmetric])

text \<open>
  C8.  When a verified \<open>transaction.succeeded\<close> request fails anywhere in its processing
  chain (the chain ends in an error, or the body has no \<open>data\<close> object to read from), the
  webhook endpoint answers with status 200 and a body that carries \<open>success: false\<close> and
  the error's message.  When the chain of the test endpoint fails, that endpoint answers
  with status 500 and the error's message.  This holds for any chain, hence for the chain
  of each variant; for the baseline it is spelt out for a failing contact lookup.
\<close>

theorem failure_replies:
  "(verifyGivebutterSignature E req = Next \<and> event_name req = JStr ''transaction.succeeded'' \<and>
    payload req = Some t \<and> fst (chain (donor_of t) t tr) = Inl err \<longrightarrow>
      fst (webhook chain E req tr) = \<lparr>status = 200, body = Failed (message err)\<rparr>) \<and>
   (verifyGivebutterSignature E req = Next \<and> event_name req = JStr ''transaction.succeeded'' \<and>
    payload req = None \<longrightarrow>
      (\<exists>msg. fst (webhook chain E req tr) = \<lparr>status = 200, body = Failed msg\<rparr>)) \<and>
   (verifyGivebutterSignature E req = Next \<and> event_name req = JStr ''transaction.succeeded'' \<and>
    payload req = Some t \<and> crm E tr (lookup_call (donor_of t) None) = Inl err \<longrightarrow>
      fst (webhook_base E req tr) = \<lparr>status = 200, body = Failed (message err)\<rparr>) \<and>
   (fst (chain (own td) td tr) = Inl err \<longrightarrow>
      fst (handle_test chain b td tr) = \<lparr>status = 500, body = Failed (message err)\<rparr>) \<and>
   (crm E tr (lookup_call (own (testData_base E)) None) = Inl err \<longrightarrow>
      fst (test_base E tr) = \<lparr>status = 500, body = Failed (message err)\<rparr>)"
proof -
  have a: "verifyGivebutterSignature E req = Next \<and> event_name req = JStr ''transaction.succeeded'' \<and>
    payload req = Some t \<and> fst (chain (donor_of t) t tr) = Inl err \<longrightarrow>
      fst (webhook chain E req tr) = \<lparr>status = 200, body = Failed (message err)\<rparr>" for chain
    by (auto simp: webhook_def handle_webhook_def split: prod.splits sum.splits)
  have b: "verifyGivebutterSignature E req = Next \<and> event_name req = JStr ''transaction.succeeded'' \<and>
    payload req = None \<longrightarrow>
      (\<exists>msg. fst (webhook chain E req tr) = \<lparr>status = 200, body = Failed msg\<rparr>)"
    by (auto simp: webhook_def handle_webhook_def)
  have c: "verifyGivebutterSignature E req = Next \<and> event_name req = JStr ''transaction.succeeded'' \<and>
    payload req = Some t \<and> crm E tr (lookup_call (donor_of t) None) = Inl err \<longrightarrow>
      fst (webhook_base E req tr) = \<lparr>status = 200, body = Failed (message err)\<rparr>"
    using a[of "chain_base E"] chain_base_lookup_fails[of E tr "donor_of t" err t]
    by (simp add: webhook_base_def)
  have d: "fst (chain (own td) td tr) = Inl err \<longrightarrow>
      fst (handle_test chain b td tr) = \<lparr>status = 500, body = Failed (message err)\<rparr>"
    for chain td b
    by (auto simp: handle_test_def split: prod.splits sum.splits)
  have e: "crm E tr (lookup_call (own (testData_base E)) None) = Inl err \<longrightarrow>
      fst (test_base E tr) = \<lparr>status = 500, body = Failed (message err)\<rparr>"
    using d[of "chain_base E" "testData_base E" True]
      chain_base_lookup_fails[of E tr "own (testData_base E)" err "testData_base E"]
    by (simp add: test_base_def)
  show ?thesis using a[of chain] b c d[of chain td b] e by - (intro conjI; assumption)
qed

text \<open>
  With CiviCRM unreachable the webhook answers 200 and the test endpoint 500, both with
  the message of the network error; a body without \<open>data\<close> is answered with 200 as well.
\<close>

theorem failure_replies_witness:
  "fst (webhook_base down_env (donation_request down_env) []) =
     \<lparr>status = 200, body = Failed ''Network Error''\<rparr> \<and>
   fst (test_base down_env []) = \<lparr>status = 500, body = Failed ''Network Error''\<rparr> \<and>
   fst (webhook_base demo_env ((donation_request demo_env)\<lparr>payload := None\<rparr>) []) =
     \<lparr>status = 200, body = Failed ''Cannot read properties of undefined''\<rparr>"
proof -
  have v: "verifyGivebutterSignature E (donation_request E') = Next" for E E'
    by (simp add: verifyGivebutterSignature_def donation_request_def)
  have f: "crm down_env tr c = Inl (HttpError ''Network Error'')" for tr c
    by (simp add: down_env_def down_crm_def)
  have a: "fst (webhook_base down_env (donation_request down_env) []) =
     \<lparr>status = 200, body = Failed ''Network Error''\<rparr>"
    using failure_replies[of down_env "donation_request down_env" "testData_campaign down_env"
        _ "[]" "HttpError ''Network Error''"] v f
    by (simp add: donation_request_def)
  have b: "fst (test_base down_env []) = \<lparr>status = 500, body = Failed ''Network Error''\<rparr>"
    using failure_replies[of down_env _ _ _ "[]" "HttpError ''Network Error''"] f
    by simp
  have c: "fst (webhook_base demo_env ((donation_request demo_env)\<lparr>payload := None\<rparr>) []) =
     \<lparr>status = 200, body = Failed ''Cannot read properties of undefined''\<rparr>"
    by (simp add: webhook_base_def webhook_def handle_webhook_def verifyGivebutterSignature_def
        donation_request_def)
  from a b c show ?thesis by blast
qed

text \<open>
  C10.  Every request that passes signature verification is answered with status 200,
  whatever the event, whether or not the body has a \<open>data\<close> object, and whatever the
  processing chain does or returns.
\<close>

theorem verified_requests_get_200:
  "verifyGivebutterSignature E req = Next \<longrightarrow> status (fst (webhook chain E req tr)) = 200"
  by (auto simp: webhook_def handle_webhook_def split: prod.splits sum.splits)

text \<open>
  An unhandled event, a donation while CiviCRM is unreachable, a donation event without
  \<open>data\<close>, and a donation that succeeds.
\<close>

theorem verified_requests_get_200_witness:
  "status (fst (webhook_campaign demo_env (ping_request None) [])) = 200 \<and>
   status (fst (webhook_campaign down_env (donation_request down_env) [])) = 200 \<and>
   status (fst (webhook_campaign demo_env ((donation_request demo_env)\<lparr>payload := None\<rparr>) [])) = 200 \<and>
   status (fst (webhook_base demo_env (donation_request demo_env) [])) = 200"
  using verified_requests_get_200[of demo_env "ping_request None" "chain_campaign demo_env" "[]"]
    verified_requests_get_200[of down_env "donation_request down_env" "chain_campaign down_env" "[]"]
    verified_requests_get_200[of demo_env "(donation_request demo_env)\<lparr>payload := None\<rparr>"
       "chain_campaign demo_env" "[]"]
    verified_requests_get_200[of demo_env "donation_request demo_env" "chain_base demo_env" "[]"]
  by (simp add: verifyGivebutterSignature_def donation_request_def ping_request_def
      webhook_campaign_def webhook_base_def)

end
